theory Spec2Isabelle
  imports Complex_Main "HOL-Library.Log_Nat"
begin

section \<open>Host numbers\<close>

text \<open>
  The value of a \<open>NumberType\<close> is a host (IEEE 754) double. The model keeps the
  special values apart and carries every other double as the rational it denotes;
  \<open>Fin 0\<close> is \<open>+0\<close>, \<open>NegZero\<close> is \<open>-0\<close>. Every double is a (dyadic) rational, so a
  statement over all \<open>Fin r\<close> covers all finite doubles. The host operations the
  modelled code applies (\<open>Math.abs\<close>, \<open>Math.floor\<close>, multiplication by \<open>1\<close> or
  \<open>-1\<close>, \<open>%\<close>, and the subtraction of \<open>2^32\<close> from an integer between \<open>2^31\<close> and
  \<open>2^32\<close>) are exact on doubles, that is, they involve no rounding, so on doubles
  they agree with the operations on rationals below.
\<close>

datatype jsnum = NaN | PosInf | NegInf | NegZero | Fin rat

fun fin :: "jsnum \<Rightarrow> rat" where
  "fin (Fin r) = r"
| "fin _ = 0"

text \<open>The host predicate \<open>isNaN\<close>.\<close>

fun isNaN :: "jsnum \<Rightarrow> bool" where
  "isNaN NaN = True"
| "isNaN _ = False"

text \<open>The host comparison \<open>x < y\<close> on numbers.\<close>

fun js_lt :: "jsnum \<Rightarrow> jsnum \<Rightarrow> bool" where
  "js_lt NaN y = False"
| "js_lt x NaN = False"
| "js_lt PosInf y = False"
| "js_lt x NegInf = False"
| "js_lt NegInf y = True"
| "js_lt x PosInf = True"
| "js_lt x y = (fin x < fin y)"

text \<open>The host comparison \<open>x >= y\<close> on numbers.\<close>

definition js_ge :: "jsnum \<Rightarrow> jsnum \<Rightarrow> bool" where
  "js_ge x y = (\<not> isNaN x \<and> \<not> isNaN y \<and> \<not> js_lt x y)"

text \<open>The host comparison \<open>x === y\<close> on numbers: \<open>NaN\<close> differs from itself, the two zeros are equal.\<close>

fun js_eq :: "jsnum \<Rightarrow> jsnum \<Rightarrow> bool" where
  "js_eq NaN y = False"
| "js_eq x NaN = False"
| "js_eq PosInf y = (y = PosInf)"
| "js_eq NegInf y = (y = NegInf)"
| "js_eq x PosInf = False"
| "js_eq x NegInf = False"
| "js_eq x y = (fin x = fin y)"

text \<open>\<open>Math.abs\<close> and \<open>Math.floor\<close>.\<close>

fun js_abs :: "jsnum \<Rightarrow> jsnum" where
  "js_abs NaN = NaN"
| "js_abs PosInf = PosInf"
| "js_abs NegInf = PosInf"
| "js_abs NegZero = Fin 0"
| "js_abs (Fin r) = Fin \<bar>r\<bar>"

fun js_floor :: "jsnum \<Rightarrow> jsnum" where
  "js_floor (Fin r) = Fin (of_int \<lfloor>r\<rfloor>)"
| "js_floor x = x"

text \<open>Unary minus, and the product \<open>sign * x\<close> for a \<open>sign\<close> that is \<open>-1\<close> (\<open>True\<close>) or \<open>1\<close>.\<close>

fun js_neg :: "jsnum \<Rightarrow> jsnum" where
  "js_neg NaN = NaN"
| "js_neg PosInf = NegInf"
| "js_neg NegInf = PosInf"
| "js_neg NegZero = Fin 0"
| "js_neg (Fin r) = (if r = 0 then NegZero else Fin (- r))"

definition js_times_sign :: "bool \<Rightarrow> jsnum \<Rightarrow> jsnum" where
  "js_times_sign negative x = (if negative then js_neg x else x)"

text \<open>
  The host remainder \<open>x % m\<close> for a finite positive modulus \<open>m\<close>: the result has the
  sign of the dividend, also when it is zero.
\<close>

definition frem :: "rat \<Rightarrow> rat \<Rightarrow> rat" where
  "frem a m = a - m * of_int \<lfloor>a / m\<rfloor>"

fun js_rem :: "jsnum \<Rightarrow> rat \<Rightarrow> jsnum" where
  "js_rem NaN m = NaN"
| "js_rem PosInf m = NaN"
| "js_rem NegInf m = NaN"
| "js_rem NegZero m = NegZero"
| "js_rem (Fin r) m =
     (if 0 \<le> r then Fin (frem r m)
      else if frem (- r) m = 0 then NegZero else Fin (- frem (- r) m))"

text \<open>The host difference \<open>x - c\<close> for a finite non-zero constant \<open>c\<close>.\<close>

fun js_sub :: "jsnum \<Rightarrow> rat \<Rightarrow> jsnum" where
  "js_sub (Fin r) c = Fin (r - c)"
| "js_sub NegZero c = Fin (- c)"
| "js_sub x c = x"

section \<open>Values\<close>

text \<open>
  Every value of the engine is an instance of \<open>BaseType\<close>: a host object with an
  identity, a \<open>type\<close> tag, a \<open>value\<close> for the primitive types, and the closure (the
  execution context current at its creation) in \<open>_closure\<close>. Instances live in a
  store indexed by their identity, since the code compares them by identity and
  mutates them in place.
\<close>

type_synonym vid = nat
type_synonym ctxid = nat
type_synonym recid = nat
type_synonym lexid = nat

text \<open>
  The base of a \<open>ReferenceType\<close> is a value or an environment record.
\<close>

datatype refbase = BaseValue vid | BaseEnvRec recid

datatype content =
    UndefinedType
  | NullType
  | BooleanType bool
  | NumberType jsnum
  | StringType string
  | ObjectType
  | ReferenceType "refbase option" string bool
  | UnknownType

text \<open>\<open>type(t)\<close>: the \<open>type\<close> field.\<close>

fun type_of :: "content \<Rightarrow> string" where
  "type_of UndefinedType = ''Undefined''"
| "type_of NullType = ''Null''"
| "type_of (BooleanType b) = ''Boolean''"
| "type_of (NumberType n) = ''Number''"
| "type_of (StringType s) = ''String''"
| "type_of ObjectType = ''Object''"
| "type_of (ReferenceType b n s) = ''Reference''"
| "type_of UnknownType = ''Unknown''"

text \<open>
  \<open>_closure\<close> is \<open>undefined\<close> (no context was current), an execution context, or
  for the global object the global object itself (\<open>createGlobalContext\<close>), which
  has no \<open>lexicalEnvironment\<close>.
\<close>

datatype closure = NoClosure | ContextClosure ctxid | ObjectClosure vid

text \<open>
  Property descriptors are host objects whose keys may be absent, present with the
  value \<open>undefined\<close>, or present with a value. \<open>typeof d.k != 'undefined'\<close> holds in
  the last case only; \<open>Object.keys\<close> lists the keys of the last two.
\<close>

datatype 'a field = Absent | Undef | Def 'a

fun defined :: "'a field \<Rightarrow> bool" where
  "defined (Def x) = True"
| "defined _ = False"

fun present :: "'a field \<Rightarrow> bool" where
  "present Absent = False"
| "present _ = True"

fun fval :: "'a field \<Rightarrow> 'a option" where
  "fval (Def x) = Some x"
| "fval _ = None"

text \<open>Truthiness of a boolean key: \<open>undefined\<close> is falsy.\<close>

fun truthy :: "bool field \<Rightarrow> bool" where
  "truthy (Def b) = b"
| "truthy _ = False"

record desc =
  dvalue :: "vid field"
  dwritable :: "bool field"
  dget :: "vid field"
  dset :: "vid field"
  denumerable :: "bool field"
  dconfigurable :: "bool field"

text \<open>
  An entry of \<open>_properties\<close>: \<open>{ value, alternateValues, name }\<close>. \<open>value\<close> is the
  \<open>UndefinedType\<close> instance the entry is created with, or a descriptor.
  \<open>alternateValues\<close> is keyed by the skipped-section id (\<open>None\<close> is the key
  \<open>undefined\<close>).
\<close>

datatype slot = Placeholder vid | Descriptor desc

record entry =
  ename :: string
  evalue :: slot
  ealternateValues :: "nat option \<Rightarrow> desc option"

record cell =
  className :: string
  closure :: closure
  content :: content
  objectInstance :: bool
  arrayInstance :: bool
  extensible :: bool
  properties :: "entry list"
  objectPrototype :: "vid option"

section \<open>Contexts and environment records\<close>

text \<open>
  A \<open>LexicalEnvironment\<close> is created with its record and its outer environment and
  never changed, so the chain is carried by value; \<open>lexId\<close> is the identity that
  \<open>===\<close> compares.
\<close>

datatype lexenv = LexicalEnvironment (lexId: lexid) (envRec: recid) (outer: "lexenv option")

record executionContext =
  lexicalEnvironment :: lexenv
  ambiguousBlock :: int
  isFunctionContext :: bool

record binding =
  bvalue :: vid
  balternateValues :: "nat option \<Rightarrow> vid option"
  isDeletable :: bool
  isMutable :: bool
  isInitialized :: "bool option"

record envrec =
  bindings :: "string \<Rightarrow> binding option"
  bindingObject :: "vid option"
  ambiguousContext :: bool
  skippedModeStack :: "nat list"

text \<open>
  The events of \<open>Runtime.Evented\<close> (not part of the sources at hand) are recorded
  in a log, in the order they fire.
\<close>

datatype event =
    PropertyReferenced vid string "desc option"
  | PropertySet vid string vid
  | PropertyDefined vid string
  | PropertyDeleted vid string
  | UndeclaredGlobalVariableCreated string
  | ErrorReported string string

text \<open>
  The process-wide state: the store of values, the execution contexts and the
  context stack (the current context is the last element), the environment
  records, the counters of the context module, the options of \<open>Runtime\<close>, and what
  \<open>RuleProcessor.inRecursionUnroll()\<close> and \<open>Runtime.isCurrentFileBlacklisted()\<close>
  answer.
\<close>

record state =
  heap :: "vid \<Rightarrow> cell"
  nextId :: vid
  contexts :: "ctxid \<Rightarrow> executionContext"
  contextStack :: "ctxid list"
  envRecs :: "recid \<Rightarrow> envrec"
  globalObject :: vid
  functionContextCount :: int
  tryCatch :: int
  skippedModeCounter :: nat
  nativeExceptionRecovery :: bool
  exactMode :: bool
  inRecursionUnroll :: bool
  currentFileBlacklisted :: bool
  events :: "event list"

section \<open>Exceptions and the state monad\<close>

text \<open>
  A host exception is either the engine's own flow-control error, which carries
  \<open>isCodeProcessorException\<close> and stands for the native exception of the given type
  and message stored in \<open>Runtime._exception\<close>, or any other host error.
\<close>

datatype exc = CodeProcessorException string string | HostError string

fun isCodeProcessorException :: "exc \<Rightarrow> bool" where
  "isCodeProcessorException (CodeProcessorException t m) = True"
| "isCodeProcessorException (HostError m) = False"

datatype 'a outcome = Normal 'a | Throw exc

type_synonym 'a m = "state \<Rightarrow> 'a outcome \<times> state"

definition ret :: "'a \<Rightarrow> 'a m" where
  "ret x = (\<lambda>s. (Normal x, s))"

definition throw :: "exc \<Rightarrow> 'a m" where
  "throw e = (\<lambda>s. (Throw e, s))"

definition bnd :: "'a m \<Rightarrow> ('a \<Rightarrow> 'b m) \<Rightarrow> 'b m" where
  "bnd f g = (\<lambda>s. case f s of (Normal x, s') \<Rightarrow> g x s' | (Throw e, s') \<Rightarrow> (Throw e, s'))"

definition seq :: "'a m \<Rightarrow> 'b m \<Rightarrow> 'b m" where
  "seq f g = bnd f (\<lambda>_. g)"

definition gets :: "(state \<Rightarrow> 'a) \<Rightarrow> 'a m" where
  "gets f = (\<lambda>s. (Normal (f s), s))"

definition modify :: "(state \<Rightarrow> state) \<Rightarrow> unit m" where
  "modify f = (\<lambda>s. (Normal (), f s))"

section \<open>Creating values\<close>

text \<open>\<open>getCurrentContext()\<close>: the last element of the context stack, or \<open>undefined\<close>.\<close>

definition getCurrentContext :: "state \<Rightarrow> ctxid option" where
  "getCurrentContext s = (if contextStack s = [] then None else Some (last (contextStack s)))"

text \<open>
  The constructor of \<open>BaseType\<close> records the class name and the current context;
  the constructors of the subclasses set \<open>type\<close> and \<open>value\<close>. A new instance gets
  the next free identity.
\<close>

definition newCell :: "string \<Rightarrow> content \<Rightarrow> cell" where
  "newCell cn c = \<lparr> className = cn, closure = NoClosure, content = c, objectInstance = False,
     arrayInstance = False, extensible = False, properties = [], objectPrototype = None \<rparr>"

definition construct :: "string \<Rightarrow> content \<Rightarrow> vid m" where
  "construct cn c = (\<lambda>s.
     (Normal (nextId s),
      s\<lparr> heap := (heap s)(nextId s := (newCell cn c)
              \<lparr> closure := (case getCurrentContext s of None \<Rightarrow> NoClosure
                             | Some k \<Rightarrow> ContextClosure k) \<rparr>),
         nextId := Suc (nextId s) \<rparr>))"

definition newUndefinedType :: "vid m" where
  "newUndefinedType = construct ''Undefined'' UndefinedType"

definition newNumberType :: "jsnum \<Rightarrow> vid m" where
  "newNumberType n = construct ''Number'' (NumberType n)"

text \<open>The constructor of \<open>UnknownType\<close> throws a host error in exact mode.\<close>

definition newUnknownType :: "vid m" where
  "newUnknownType = (\<lambda>s.
     if exactMode s
     then throw (HostError ''Attempted to instantiate an unknown type in exact mode'') s
     else construct ''Unknown'' UnknownType s)"

definition getContent :: "vid \<Rightarrow> content m" where
  "getContent v = gets (\<lambda>s. content (heap s v))"

definition setContent :: "vid \<Rightarrow> content \<Rightarrow> unit m" where
  "setContent v c = modify (\<lambda>s. s\<lparr> heap := (heap s)(v := (heap s v)\<lparr> content := c \<rparr>) \<rparr>)"

section \<open>Equality of values\<close>

text \<open>
  The host value in the \<open>value\<close> field: \<open>NullType\<close> sets it to \<open>null\<close>, the
  constructors of Boolean, Number and String to the primitive value, the other
  classes do not set it.
\<close>

datatype hostval = HUndefined | HNull | HBoolean bool | HNumber jsnum | HString string

fun valueField :: "content \<Rightarrow> hostval" where
  "valueField NullType = HNull"
| "valueField (BooleanType b) = HBoolean b"
| "valueField (NumberType n) = HNumber n"
| "valueField (StringType s) = HString s"
| "valueField c = HUndefined"

text \<open>The host comparison \<open>a === b\<close> of two such values.\<close>

fun host_strict_eq :: "hostval \<Rightarrow> hostval \<Rightarrow> bool" where
  "host_strict_eq HUndefined HUndefined = True"
| "host_strict_eq HNull HNull = True"
| "host_strict_eq (HBoolean a) (HBoolean b) = (a = b)"
| "host_strict_eq (HNumber a) (HNumber b) = js_eq a b"
| "host_strict_eq (HString a) (HString b) = (a = b)"
| "host_strict_eq a b = False"

text \<open>
  \<open>sameValue(x, y)\<close>; either argument may be \<open>undefined\<close> (\<open>None\<close>). The last line of
  the source compares the two instances by identity.
\<close>

definition sameValue :: "(vid \<Rightarrow> cell) \<Rightarrow> vid option \<Rightarrow> vid option \<Rightarrow> bool" where
  "sameValue h x y =
     (case x of
        None \<Rightarrow> (case y of None \<Rightarrow> True | Some b \<Rightarrow> False)
      | Some a \<Rightarrow>
         (case y of
            None \<Rightarrow> False
          | Some b \<Rightarrow>
             (if type_of (content (h a)) \<noteq> type_of (content (h b)) then False
              else if type_of (content (h a)) = ''Undefined'' \<or> type_of (content (h a)) = ''Null''
                then True
              else if type_of (content (h a)) = ''Boolean'' \<or> type_of (content (h a)) = ''Number''
                      \<or> type_of (content (h a)) = ''String''
                then host_strict_eq (valueField (content (h a))) (valueField (content (h b)))
              else a = b)))"

text \<open>
  \<open>strictEquals(x, y)\<close>. The \<open>switch\<close> has no case for the types \<open>Reference\<close> and
  \<open>Unknown\<close> and no default: there the function ends without a \<open>return\<close>, and the
  result is \<open>undefined\<close> (\<open>None\<close>).
\<close>

definition strictEquals :: "(vid \<Rightarrow> cell) \<Rightarrow> vid \<Rightarrow> vid \<Rightarrow> bool option" where
  "strictEquals h x y =
     (let typeX = type_of (content (h x)); typeY = type_of (content (h y)) in
      if typeX \<noteq> typeY then Some False
      else if typeX = ''Undefined'' \<or> typeX = ''Null'' then Some True
      else if typeX = ''Boolean'' \<or> typeX = ''Number'' \<or> typeX = ''String''
        then Some (host_strict_eq (valueField (content (h x))) (valueField (content (h y))))
      else if typeX = ''Object'' then Some (x = y)
      else None)"

section \<open>Skipped mode, ambiguous blocks and the try-catch counter\<close>

text \<open>\<open>c.lexicalEnvironment.envRec\<close> for the context \<open>c\<close>.\<close>

definition currentEnvRec :: "state \<Rightarrow> ctxid \<Rightarrow> recid" where
  "currentEnvRec s k = envRec (lexicalEnvironment (contexts s k))"

text \<open>\<open>enterContext(context)\<close> and \<open>exitContext()\<close>.\<close>

definition enterContext :: "ctxid \<Rightarrow> unit m" where
  "enterContext k =
     modify (\<lambda>s. s\<lparr> contextStack := contextStack s @ [k],
                    functionContextCount :=
                      (if isFunctionContext (contexts s k) then functionContextCount s + 1
                       else functionContextCount s) \<rparr>)"

definition exitContext :: "ctxid m" where
  "exitContext = (\<lambda>s.
     if contextStack s = [] then throw (HostError ''TypeError: cannot read a property of undefined'') s
     else (Normal (last (contextStack s)),
           s\<lparr> contextStack := butlast (contextStack s),
              functionContextCount :=
                (if isFunctionContext (contexts s (last (contextStack s)))
                 then functionContextCount s - 1 else functionContextCount s) \<rparr>))"

text \<open>\<open>isSkippedMode()\<close>: some context of the stack has a non-empty skipped-mode stack.\<close>

definition isSkippedMode :: "state \<Rightarrow> bool" where
  "isSkippedMode s =
     list_ex (\<lambda>k. skippedModeStack (envRecs s (currentEnvRec s k)) \<noteq> []) (contextStack s)"

definition enterTryCatch :: "unit m" where
  "enterTryCatch = modify (\<lambda>s. s\<lparr> tryCatch := tryCatch s + 1 \<rparr>)"

definition exitTryCatch :: "unit m" where
  "exitTryCatch = modify (\<lambda>s. s\<lparr> tryCatch := tryCatch s - 1 \<rparr>)"

definition inTryCatch :: "state \<Rightarrow> bool" where
  "inTryCatch s = (tryCatch s \<noteq> 0)"

section \<open>Native exceptions\<close>

text \<open>
  \<open>Runtime.reportError\<close> (not part of the sources at hand) emits the
  \<open>errorReported\<close> event. \<open>throwNativeException\<close> builds the error object with the
  constructor of the built-in library, stores it in \<open>Runtime._exception\<close> and
  throws the flow-control error; the model keeps the type and the message.
\<close>

definition reportError :: "string \<Rightarrow> string \<Rightarrow> unit m" where
  "reportError exceptionType message =
     modify (\<lambda>s. s\<lparr> events := events s @ [ErrorReported exceptionType message] \<rparr>)"

definition throwNativeException :: "string \<Rightarrow> string \<Rightarrow> 'a m" where
  "throwNativeException exceptionType message = throw (CodeProcessorException exceptionType message)"

definition handleRecoverableNativeException :: "string \<Rightarrow> string \<Rightarrow> unit m" where
  "handleRecoverableNativeException exceptionType message = (\<lambda>s.
     if \<not> isSkippedMode s then
       (if nativeExceptionRecovery s \<and> \<not> exactMode s
        then reportError exceptionType message s
        else throwNativeException exceptionType message s)
     else ret () s)"

section \<open>Conversions\<close>

text \<open>
  What the modelled functions take from outside: the host conversion of a string
  to a number (\<open>+s\<close>); the two methods that run functions of the analysed
  program through the rule processor, \<open>ObjectType.defaultValue\<close> and
  \<open>callFunction\<close> (function, \<open>this\<close> value, arguments); and the inner function
  \<open>put\<close> of \<open>putValue\<close> for a base that is a Boolean, a Number or a String, which
  works on the wrapper object that \<open>toObject\<close> builds from the table of prototypes.
\<close>

record host =
  strToNum :: "string \<Rightarrow> jsnum"
  defaultValue :: "vid \<Rightarrow> string \<Rightarrow> vid m"
  callFunction :: "vid \<Rightarrow> vid option \<Rightarrow> vid list \<Rightarrow> vid m"
  putPrimitiveBase :: "vid \<Rightarrow> string \<Rightarrow> vid \<Rightarrow> bool \<Rightarrow> unit m"

text \<open>\<open>input = input || new UndefinedType()\<close>.\<close>

definition orUndefined :: "vid option \<Rightarrow> vid m" where
  "orUndefined input = (case input of Some v \<Rightarrow> ret v | None \<Rightarrow> newUndefinedType)"

definition toPrimitive :: "host \<Rightarrow> vid option \<Rightarrow> string \<Rightarrow> vid m" where
  "toPrimitive H input preferredType =
     bnd (orUndefined input) (\<lambda>input.
     bnd (getContent input) (\<lambda>c.
       if type_of c = ''Object'' then defaultValue H input preferredType
       else if type_of c = ''Unknown'' then newUnknownType
       else ret input))"

text \<open>
  \<open>toNumber\<close> calls itself on the primitive of an object; the first argument bounds
  the depth of the host call stack, whose exhaustion is a host error.
\<close>

fun toNumber :: "host \<Rightarrow> nat \<Rightarrow> vid option \<Rightarrow> vid m" where
  "toNumber H 0 input = throw (HostError ''Maximum call stack size exceeded'')"
| "toNumber H (Suc k) input =
     bnd (newNumberType (Fin 0)) (\<lambda>newNumber.
     bnd (orUndefined input) (\<lambda>input.
     bnd (getContent input) (\<lambda>c.
       case c of
         UndefinedType \<Rightarrow> seq (setContent newNumber (NumberType NaN)) (ret newNumber)
       | NullType \<Rightarrow> seq (setContent newNumber (NumberType (Fin 0))) (ret newNumber)
       | BooleanType b \<Rightarrow>
           seq (setContent newNumber (NumberType (Fin (if b then 1 else 0)))) (ret newNumber)
       | NumberType n \<Rightarrow> seq (setContent newNumber (NumberType n)) (ret newNumber)
       | StringType str \<Rightarrow>
           seq (setContent newNumber (NumberType (strToNum H str))) (ret newNumber)
       | ObjectType \<Rightarrow>
           bnd (toPrimitive H (Some input) ''Number'') (\<lambda>p. toNumber H k (Some p))
       | UnknownType \<Rightarrow> newUnknownType
       | ReferenceType b n st \<Rightarrow> ret newNumber)))"

text \<open>
  The arithmetic of \<open>toInt32\<close> on the value of the number: \<open>0\<close> for \<open>NaN\<close> and the
  infinities, otherwise \<open>sign * Math.floor(Math.abs(v)) % Math.pow(2, 32)\<close>, less
  \<open>Math.pow(2, 32)\<close> when that is at least \<open>Math.pow(2, 31)\<close>.
\<close>

definition toInt32_value :: "jsnum \<Rightarrow> jsnum" where
  "toInt32_value v =
     (if isNaN v \<or> js_eq v PosInf \<or> js_eq v NegInf then Fin 0
      else
        let sign = js_lt v (Fin 0);
            w = js_rem (js_times_sign sign (js_floor (js_abs v))) (2 ^ 32)
        in if js_ge w (Fin (2 ^ 31)) then js_sub w (2 ^ 32) else w)"

text \<open>
  \<open>toInt32(input)\<close>. \<open>toNumber\<close> returns a new Number or a new Unknown; the last case
  of the model is not reachable.
\<close>

definition toInt32 :: "host \<Rightarrow> nat \<Rightarrow> vid option \<Rightarrow> vid m" where
  "toInt32 H k input =
     bnd (toNumber H k input) (\<lambda>newNumber.
     bnd (getContent newNumber) (\<lambda>c.
       case c of
         UnknownType \<Rightarrow> newUnknownType
       | NumberType v \<Rightarrow>
           seq (setContent newNumber (NumberType (toInt32_value v))) (ret newNumber)
       | _ \<Rightarrow> throw (HostError ''toNumber returned neither a Number nor an Unknown'')))"

section \<open>Locality of values\<close>

definition typeError :: exc where
  "typeError = HostError ''TypeError: cannot read a property of undefined''"

text \<open>\<open>getCurrentContext()\<close> followed by a property access.\<close>

definition theCurrentContext :: "ctxid m" where
  "theCurrentContext = (\<lambda>s. case getCurrentContext s of None \<Rightarrow> throw typeError s | Some k \<Rightarrow> ret k s)"

text \<open>\<open>c.lexicalEnvironment\<close> for a closure \<open>c\<close>.\<close>

definition closureLexicalEnvironment :: "closure \<Rightarrow> lexenv option m" where
  "closureLexicalEnvironment c =
     (case c of
        NoClosure \<Rightarrow> throw typeError
      | ContextClosure k \<Rightarrow> gets (\<lambda>s. Some (lexicalEnvironment (contexts s k)))
      | ObjectClosure v \<Rightarrow> ret None)"

text \<open>The loop of \<open>BaseType._isLocal\<close> over the chain of the current lexical environment.\<close>

fun isLocal_loop :: "(recid \<Rightarrow> envrec) \<Rightarrow> lexid option \<Rightarrow> lexenv \<Rightarrow> bool" where
  "isLocal_loop recs target (LexicalEnvironment l r out) =
     (if target = Some l then True
      else if ambiguousContext (recs r) then False
      else (case out of None \<Rightarrow> True | Some e \<Rightarrow> isLocal_loop recs target e))"

definition isLocal :: "vid \<Rightarrow> bool m" where
  "isLocal v =
     bnd theCurrentContext (\<lambda>k.
     bnd (gets (\<lambda>s. lexicalEnvironment (contexts s k))) (\<lambda>lexEnv.
     bnd (gets (\<lambda>s. closure (heap s v))) (\<lambda>c.
     bnd (closureLexicalEnvironment c) (\<lambda>target.
     gets (\<lambda>s. isLocal_loop (envRecs s) (map_option lexId target) lexEnv)))))"

text \<open>The loop of \<open>BaseType._isSkippedLocal\<close>, from the top of the context stack down.\<close>

fun isSkippedLocal_loop :: "state \<Rightarrow> lexid option \<Rightarrow> ctxid list \<Rightarrow> bool" where
  "isSkippedLocal_loop s target [] = True"
| "isSkippedLocal_loop s target (k # ks) =
     (if target = Some (lexId (lexicalEnvironment (contexts s k))) then True
      else if skippedModeStack (envRecs s (currentEnvRec s k)) \<noteq> [] then False
      else isSkippedLocal_loop s target ks)"

definition isSkippedLocal :: "vid \<Rightarrow> bool m" where
  "isSkippedLocal v =
     bnd (gets (\<lambda>s. closure (heap s v))) (\<lambda>c.
     bnd (closureLexicalEnvironment c) (\<lambda>target.
     gets (\<lambda>s. isSkippedLocal_loop s (map_option lexId target) (rev (contextStack s)))))"

text \<open>The loop of \<open>BaseType._updateClosure\<close> over the chain of the closure of the value.\<close>

fun updateClosure_loop :: "lexid option \<Rightarrow> lexenv \<Rightarrow> bool" where
  "updateClosure_loop target (LexicalEnvironment l r out) =
     (if target = Some l then True
      else (case out of None \<Rightarrow> False | Some e \<Rightarrow> updateClosure_loop target e))"

definition updateClosure :: "vid \<Rightarrow> closure \<Rightarrow> bool m" where
  "updateClosure v targetClosure =
     bnd (gets (\<lambda>s. closure (heap s v))) (\<lambda>c.
     bnd (closureLexicalEnvironment c) (\<lambda>lexEnv.
     bnd (closureLexicalEnvironment targetClosure) (\<lambda>target.
       if (case lexEnv of None \<Rightarrow> False | Some e \<Rightarrow> updateClosure_loop (map_option lexId target) e)
       then seq (modify (\<lambda>s. s\<lparr> heap := (heap s)(v := (heap s v)\<lparr> closure := targetClosure \<rparr>) \<rparr>))
                (ret True)
       else ret False)))"

definition isLocalSkippedMode :: "bool m" where
  "isLocalSkippedMode =
     bnd theCurrentContext (\<lambda>k. gets (\<lambda>s. skippedModeStack (envRecs s (currentEnvRec s k)) \<noteq> []))"

text \<open>\<open>getSkippedSection()\<close>, from the top of the context stack down; \<open>None\<close> is \<open>undefined\<close>.\<close>

fun getSkippedSection_loop :: "state \<Rightarrow> ctxid list \<Rightarrow> nat option" where
  "getSkippedSection_loop s [] = None"
| "getSkippedSection_loop s (k # ks) =
     (if skippedModeStack (envRecs s (currentEnvRec s k)) \<noteq> []
      then Some (last (skippedModeStack (envRecs s (currentEnvRec s k))))
      else getSkippedSection_loop s ks)"

definition getSkippedSection :: "state \<Rightarrow> nat option" where
  "getSkippedSection s = getSkippedSection_loop s (rev (contextStack s))"

definition enterAmbiguousBlock :: "unit m" where
  "enterAmbiguousBlock =
     bnd theCurrentContext (\<lambda>k. modify (\<lambda>s. s\<lparr> contexts := (contexts s)
        (k := (contexts s k)\<lparr> ambiguousBlock := ambiguousBlock (contexts s k) + 1 \<rparr>) \<rparr>))"

definition exitAmbiguousBlock :: "unit m" where
  "exitAmbiguousBlock =
     bnd theCurrentContext (\<lambda>k. modify (\<lambda>s. s\<lparr> contexts := (contexts s)
        (k := (contexts s k)\<lparr> ambiguousBlock := ambiguousBlock (contexts s k) - 1 \<rparr>) \<rparr>))"

definition isAmbiguousBlock :: "bool m" where
  "isAmbiguousBlock = bnd theCurrentContext (\<lambda>k. gets (\<lambda>s. ambiguousBlock (contexts s k) \<noteq> 0))"

section \<open>Property descriptors\<close>

definition isDataDescriptor :: "desc \<Rightarrow> bool" where
  "isDataDescriptor d = (defined (dvalue d) \<or> defined (dwritable d))"

definition isAccessorDescriptor :: "desc \<Rightarrow> bool" where
  "isAccessorDescriptor d = (defined (dget d) \<or> defined (dset d))"

definition isGenericDescriptor :: "desc \<Rightarrow> bool" where
  "isGenericDescriptor d = (\<not> isAccessorDescriptor d \<and> \<not> isDataDescriptor d)"

text \<open>The three predicates on a descriptor that may be \<open>undefined\<close>.\<close>

definition isDataDescriptorOpt :: "desc option \<Rightarrow> bool" where
  "isDataDescriptorOpt d = (case d of None \<Rightarrow> False | Some x \<Rightarrow> isDataDescriptor x)"

definition isAccessorDescriptorOpt :: "desc option \<Rightarrow> bool" where
  "isAccessorDescriptorOpt d = (case d of None \<Rightarrow> False | Some x \<Rightarrow> isAccessorDescriptor x)"

text \<open>
  \<open>sameDesc(x, y)\<close>. The branch for two accessor descriptors evaluates its
  comparison and returns nothing, which is falsy.
\<close>

definition sameDesc :: "(vid \<Rightarrow> cell) \<Rightarrow> desc \<Rightarrow> desc \<Rightarrow> bool" where
  "sameDesc h x y =
     (if isDataDescriptor x \<and> isDataDescriptor y
      then fval (dconfigurable x) = fval (dconfigurable y)
         \<and> fval (denumerable x) = fval (denumerable y)
         \<and> fval (dwritable x) = fval (dwritable y)
         \<and> sameValue h (fval (dvalue x)) (fval (dvalue y))
      else False)"

definition noKeys :: desc where
  "noKeys = \<lparr> dvalue = Absent, dwritable = Absent, dget = Absent, dset = Absent,
              denumerable = Absent, dconfigurable = Absent \<rparr>"

text \<open>\<open>new DataPropertyDescriptor()\<close> creates an \<open>UndefinedType\<close> for its value.\<close>

definition newDataPropertyDescriptor :: "desc m" where
  "newDataPropertyDescriptor =
     bnd newUndefinedType (\<lambda>u.
       ret (noKeys\<lparr> dvalue := Def u, dwritable := Def False, denumerable := Def False,
                    dconfigurable := Def False \<rparr>))"

definition newAccessorPropertyDescriptor :: desc where
  "newAccessorPropertyDescriptor =
     noKeys\<lparr> dget := Undef, dset := Undef, denumerable := Def False, dconfigurable := Def False \<rparr>"

text \<open>\<open>if (typeof src != 'undefined') { dst = src; }\<close>\<close>

definition ifDefined :: "'a field \<Rightarrow> 'a field \<Rightarrow> 'a field" where
  "ifDefined src dst = (if defined src then src else dst)"

text \<open>The key that the assignment \<open>d.k = x\<close> leaves: present, and \<open>undefined\<close> if \<open>x\<close> is.\<close>

definition assigned :: "'a field \<Rightarrow> 'a field" where
  "assigned x = (case x of Def a \<Rightarrow> Def a | _ \<Rightarrow> Undef)"

text \<open>\<open>copyDescriptor\<close> of \<open>getOwnProperty\<close>, applied to the \<open>value\<close> of an entry.\<close>

definition copyDescriptor :: "slot \<Rightarrow> desc" where
  "copyDescriptor x =
     (case x of
        Placeholder u \<Rightarrow> noKeys\<lparr> dget := Undef, dset := Undef, denumerable := Undef, dconfigurable := Undef \<rparr>
      | Descriptor d \<Rightarrow>
          (if isDataDescriptor d
           then noKeys\<lparr> dvalue := assigned (dvalue d), dwritable := assigned (dwritable d),
                  denumerable := assigned (denumerable d), dconfigurable := assigned (dconfigurable d) \<rparr>
           else noKeys\<lparr> dget := assigned (dget d), dset := assigned (dset d),
                  denumerable := assigned (denumerable d), dconfigurable := assigned (dconfigurable d) \<rparr>))"

text \<open>
  \<open>for (i in descKeys) { current[descKeys[i]] = desc[descKeys[i]]; }\<close> where \<open>keys\<close> is
  the descriptor whose keys were listed and \<open>src\<close> the descriptor that is read.
\<close>

definition copyKey :: "'a field \<Rightarrow> 'a field \<Rightarrow> 'a field \<Rightarrow> 'a field" where
  "copyKey k src dst = (if present k then assigned src else dst)"

definition copyKeys :: "desc \<Rightarrow> desc \<Rightarrow> desc \<Rightarrow> desc" where
  "copyKeys keys src dst =
     \<lparr> dvalue = copyKey (dvalue keys) (dvalue src) (dvalue dst),
       dwritable = copyKey (dwritable keys) (dwritable src) (dwritable dst),
       dget = copyKey (dget keys) (dget src) (dget dst),
       dset = copyKey (dset keys) (dset src) (dset dst),
       denumerable = copyKey (denumerable keys) (denumerable src) (denumerable dst),
       dconfigurable = copyKey (dconfigurable keys) (dconfigurable src) (dconfigurable dst) \<rparr>"

definition hasKeys :: "desc \<Rightarrow> bool" where
  "hasKeys d = (present (dvalue d) \<or> present (dwritable d) \<or> present (dget d) \<or> present (dset d)
     \<or> present (denumerable d) \<or> present (dconfigurable d))"

section \<open>The property list of a value\<close>

definition fireEvent :: "event \<Rightarrow> unit m" where
  "fireEvent e = modify (\<lambda>s. s\<lparr> events := events s @ [e] \<rparr>)"

definition findEntry :: "string \<Rightarrow> entry list \<Rightarrow> entry option" where
  "findEntry p es = find (\<lambda>e. ename e = p) es"

text \<open>\<open>BaseType._lookupProperty(p)\<close>, without \<open>alternate\<close>.\<close>

definition lookupProperty :: "state \<Rightarrow> vid \<Rightarrow> string \<Rightarrow> slot option" where
  "lookupProperty s v p = map_option evalue (findEntry p (properties (heap s v)))"

fun updateEntry :: "string \<Rightarrow> (entry \<Rightarrow> entry) \<Rightarrow> entry list \<Rightarrow> entry list" where
  "updateEntry p f [] = []"
| "updateEntry p f (e # es) = (if ename e = p then f e # es else e # updateEntry p f es)"


definition setProperties :: "vid \<Rightarrow> (entry list \<Rightarrow> entry list) \<Rightarrow> unit m" where
  "setProperties v f =
     modify (\<lambda>s. s\<lparr> heap := (heap s)(v := (heap s v)\<lparr> properties := f (properties (heap s v)) \<rparr>) \<rparr>)"

text \<open>
  \<open>BaseType._addProperty(p, desc)\<close>: a missing entry is created and pushed first;
  then the descriptor goes to the alternate values of the current skipped section,
  or to the primary slot.
\<close>

definition addProperty :: "vid \<Rightarrow> string \<Rightarrow> desc \<Rightarrow> unit m" where
  "addProperty v p d =
     bnd (gets (\<lambda>s. findEntry p (properties (heap s v)))) (\<lambda>found.
     bnd (case found of
            Some e \<Rightarrow> ret ()
          | None \<Rightarrow>
              bnd newUndefinedType (\<lambda>u.
                setProperties v (\<lambda>es. es @ [\<lparr> ename = p, evalue = Placeholder u,
                                               ealternateValues = (\<lambda>k. None) \<rparr>]))) (\<lambda>_.
     bnd isLocalSkippedMode (\<lambda>localSkipped.
     bnd (if localSkipped then ret True else bnd (isSkippedLocal v) (\<lambda>l. ret (\<not> l))) (\<lambda>alternate.
       if alternate
       then bnd (gets getSkippedSection) (\<lambda>section.
              setProperties v (updateEntry p
                (\<lambda>e. e\<lparr> ealternateValues := (ealternateValues e)(section := Some d) \<rparr>)))
       else setProperties v (updateEntry p (\<lambda>e. e\<lparr> evalue := Descriptor d \<rparr>))))))"


section \<open>The internal methods of ObjectType\<close>

text \<open>
  The methods below are those of the class \<open>ObjectType\<close>, and for
  \<open>defineOwnProperty\<close> also the override of \<open>ArrayType\<close>; the overrides of other
  subclasses are not modelled. The callers in the modelled code pass no
  \<open>alternate\<close> argument, so the methods are modelled without it.
\<close>

definition unknownDescriptor :: "vid \<Rightarrow> desc" where
  "unknownDescriptor u =
     noKeys\<lparr> dvalue := Def u, dconfigurable := Def False, dwritable := Def False,
             denumerable := Def True \<rparr>"

definition getOwnProperty :: "vid \<Rightarrow> string \<Rightarrow> desc option m" where
  "getOwnProperty v p =
     bnd (getContent v) (\<lambda>c.
       if type_of c = ''Unknown''
       then bnd newUnknownType (\<lambda>u. ret (Some (unknownDescriptor u)))
       else gets (\<lambda>s. map_option copyDescriptor (lookupProperty s v p)))"

text \<open>
  \<open>getProperty\<close> calls itself on the prototype; the first argument bounds the depth
  of the host call stack. A prototype that is no instance of \<open>ObjectType\<close> has no
  such method.
\<close>

definition noSuchMethod :: exc where
  "noSuchMethod = HostError ''TypeError: undefined is not a function''"

fun getProperty :: "nat \<Rightarrow> vid \<Rightarrow> string \<Rightarrow> desc option m" where
  "getProperty 0 v p = throw (HostError ''Maximum call stack size exceeded'')"
| "getProperty (Suc k) v p =
     bnd (getOwnProperty v p) (\<lambda>prop.
       case prop of
         Some d \<Rightarrow> ret (Some d)
       | None \<Rightarrow>
           bnd (gets (\<lambda>s. objectPrototype (heap s v))) (\<lambda>proto.
             case proto of
               None \<Rightarrow> ret None
             | Some pr \<Rightarrow>
                 bnd (getContent pr) (\<lambda>c.
                   if type_of c \<noteq> ''Null'' \<and> pr \<noteq> v
                   then bnd (gets (\<lambda>s. objectInstance (heap s pr))) (\<lambda>isObj.
                          if isObj then getProperty k pr p else throw noSuchMethod)
                   else ret None)))"

text \<open>
  \<open>get(p)\<close>. The inner function \<open>lookup\<close> is called as a plain function, so the
  getter of an accessor property is called without a \<open>this\<close> value of the engine.
\<close>

definition get_lookup :: "host \<Rightarrow> desc option \<Rightarrow> vid option m" where
  "get_lookup H desc =
     (case desc of
        None \<Rightarrow> ret None
      | Some d \<Rightarrow>
          if isDataDescriptor d then ret (fval (dvalue d))
          else (case dget d of
                  Def g \<Rightarrow>
                    bnd (gets (\<lambda>s. className (heap s g))) (\<lambda>cn.
                      if cn \<noteq> ''Undefined''
                      then bnd (callFunction H g None []) (\<lambda>r. ret (Some r))
                      else bnd newUndefinedType (\<lambda>u. ret (Some u)))
                | _ \<Rightarrow> bnd newUndefinedType (\<lambda>u. ret (Some u))))"

definition get :: "host \<Rightarrow> nat \<Rightarrow> vid \<Rightarrow> string \<Rightarrow> vid m" where
  "get H k v p =
     bnd (getProperty k v p) (\<lambda>desc.
     bnd (get_lookup H desc) (\<lambda>result.
     seq (fireEvent (PropertyReferenced v p desc))
         (case result of Some r \<Rightarrow> ret r | None \<Rightarrow> newUndefinedType)))"

text \<open>\<open>canPut(p)\<close> answers a truthy or falsy host value, or the string \<open>'Unknown'\<close>.\<close>

datatype canPutResult = CanPutUnknown | CanPut bool

definition hasSetter :: "desc \<Rightarrow> bool m" where
  "hasSetter d =
     (case dset d of
        Def f \<Rightarrow> gets (\<lambda>s. className (heap s f) \<noteq> ''Undefined'')
      | _ \<Rightarrow> ret False)"

definition canPut :: "nat \<Rightarrow> vid \<Rightarrow> string \<Rightarrow> canPutResult m" where
  "canPut k v p =
     bnd (getOwnProperty v p) (\<lambda>desc.
       case desc of
         Some d \<Rightarrow>
           if isAccessorDescriptor d then bnd (hasSetter d) (\<lambda>b. ret (CanPut b))
           else ret (CanPut (truthy (dwritable d)))
       | None \<Rightarrow>
           bnd (gets (\<lambda>s. objectPrototype (heap s v))) (\<lambda>proto.
           bnd (gets (\<lambda>s. extensible (heap s v))) (\<lambda>ext.
             case proto of
               None \<Rightarrow> ret (CanPut ext)
             | Some pr \<Rightarrow>
                 bnd (getContent pr) (\<lambda>c.
                   if type_of c = ''Unknown'' then ret CanPutUnknown
                   else if type_of c = ''Null'' then ret (CanPut ext)
                   else bnd (gets (\<lambda>s. objectInstance (heap s pr))) (\<lambda>isObj.
                        if \<not> isObj then throw noSuchMethod
                        else bnd (getProperty k pr p) (\<lambda>inherited.
                          case inherited of
                            None \<Rightarrow> ret (CanPut ext)
                          | Some i \<Rightarrow>
                              if isAccessorDescriptor i then bnd (hasSetter i) (\<lambda>b. ret (CanPut b))
                              else ret (CanPut (ext \<and> truthy (dwritable i)))))))))"

text \<open>
  \<open>ObjectType.prototype.defineOwnProperty(p, desc, throwFlag, suppressEvent)\<close>, in
  the order of the source: the descriptor of a data property whose value is
  Unknown, not local, or written in an ambiguous block is stored with an Unknown
  value at once; then the check of extensibility, the event, the creation of a new
  property, and the validation against the current property.
\<close>

definition reject :: "string \<Rightarrow> bool \<Rightarrow> string \<Rightarrow> bool m" where
  "reject p throwFlag reason =
     seq (if throwFlag
          then handleRecoverableNativeException ''TypeError''
                 (''Could not define property '' @ p @ '': '' @ reason)
          else ret ())
         (ret False)"

definition notConfigurableMismatch :: string where
  "notConfigurableMismatch =
     ''existing property is not configurable and writable mismatch between existing and new property''"

text \<open>
  The first block: \<open>desc.value = desc.value || new UndefinedType()\<close>, the update of
  the closure of the value, and the test whether \<open>Unknown\<close> is to be stored. The
  result is the descriptor as the block leaves it, with the answer of the test.
\<close>

definition prepareDataDescriptor :: "vid \<Rightarrow> desc \<Rightarrow> (desc \<times> bool) m" where
  "prepareDataDescriptor v d =
     (if isDataDescriptor d
      then
        bnd (case dvalue d of Def x \<Rightarrow> ret x | _ \<Rightarrow> newUndefinedType) (\<lambda>x.
        bnd (gets (\<lambda>s. closure (heap s v))) (\<lambda>thisClosure.
        bnd (updateClosure x thisClosure) (\<lambda>_.
        bnd (getContent x) (\<lambda>c.
        bnd (if type_of c = ''Unknown'' then ret True
             else bnd (isLocal x) (\<lambda>l. if \<not> l then ret True else isAmbiguousBlock)) (\<lambda>unknown.
          ret (d\<lparr> dvalue := Def x \<rparr>, unknown))))))
      else ret (d, False))"

definition defineUnknown :: "vid \<Rightarrow> string \<Rightarrow> desc \<Rightarrow> bool m" where
  "defineUnknown v p d =
     bnd newDataPropertyDescriptor (\<lambda>newProp.
     bnd newUnknownType (\<lambda>u.
     seq (addProperty v p
            (newProp\<lparr> dconfigurable := ifDefined (dconfigurable d) (dconfigurable newProp),
                      denumerable := ifDefined (denumerable d) (denumerable newProp),
                      dwritable := ifDefined (dwritable d) (dwritable newProp),
                      dvalue := Def u \<rparr>))
         (ret True)))"

definition defineNew :: "vid \<Rightarrow> string \<Rightarrow> desc \<Rightarrow> bool m" where
  "defineNew v p d =
     bnd (if isAccessorDescriptor d
          then ret (newAccessorPropertyDescriptor
                 \<lparr> dconfigurable := ifDefined (dconfigurable d) (dconfigurable newAccessorPropertyDescriptor),
                   denumerable := ifDefined (denumerable d) (denumerable newAccessorPropertyDescriptor),
                   dget := ifDefined (dget d) (dget newAccessorPropertyDescriptor),
                   dset := ifDefined (dset d) (dset newAccessorPropertyDescriptor) \<rparr>)
          else bnd newDataPropertyDescriptor (\<lambda>newProp.
                 ret (newProp
                   \<lparr> dconfigurable := ifDefined (dconfigurable d) (dconfigurable newProp),
                     denumerable := ifDefined (denumerable d) (denumerable newProp),
                     dvalue := ifDefined (dvalue d) (dvalue newProp),
                     dwritable := ifDefined (dwritable d) (dwritable newProp) \<rparr>))) (\<lambda>newProp.
     seq (addProperty v p newProp) (ret True))"

text \<open>
  The validation against the current property \<open>cur\<close>. \<open>keys\<close> is the descriptor as
  it was passed (its keys were listed on entry), \<open>d\<close> the descriptor after the first
  block. The answer is \<open>Inl\<close> the reason of a rejection or \<open>Inr\<close> the descriptor
  that the keys are copied to.
\<close>

definition validateChange :: "desc \<Rightarrow> desc \<Rightarrow> (string + desc) m" where
  "validateChange cur d =
     (if isGenericDescriptor d then ret (Inr d)
      else if isDataDescriptor d \<noteq> isDataDescriptor cur then
        (if \<not> truthy (dconfigurable cur)
         then ret (Inl ''descriptor type mismatch between existing and new property'')
         else if isDataDescriptor cur
         then ret (Inr (newAccessorPropertyDescriptor
                   \<lparr> dconfigurable := assigned (dconfigurable cur),
                     denumerable := assigned (denumerable cur) \<rparr>))
         else bnd newDataPropertyDescriptor (\<lambda>newProp.
                ret (Inr (newProp\<lparr> dconfigurable := assigned (dconfigurable cur),
                                    denumerable := assigned (denumerable cur) \<rparr>))))
      else if isDataDescriptor d \<and> isDataDescriptor cur then
        (if \<not> truthy (dconfigurable cur) \<and> \<not> truthy (dwritable cur) then
           (if truthy (dwritable d) then ret (Inl notConfigurableMismatch)
            else bnd (gets (\<lambda>s. sameDesc (heap s) d cur)) (\<lambda>same.
              if defined (dvalue d) \<and> \<not> same
              then ret (Inl ''existing property is not configurable and value mismatch between existing and new property'')
              else ret (Inr cur)))
         else ret (Inr cur))
      else if isAccessorDescriptor d \<and> isAccessorDescriptor cur then
        (if \<not> truthy (dconfigurable cur) \<and> defined (dset d) then
           bnd (gets (\<lambda>s. sameValue (heap s) (fval (dset d)) (fval (dset cur)))) (\<lambda>sameSet.
           if \<not> sameSet
           then ret (Inl ''existing property is not configurable and set mismatch between existing and new property'')
           else bnd (gets (\<lambda>s. sameValue (heap s) (fval (dget d)) (fval (dget cur)))) (\<lambda>sameGet.
             if \<not> sameGet
             then ret (Inl ''existing property is not configurable and get mismatch between existing and new property'')
             else ret (Inr cur)))
         else ret (Inr cur))
      else ret (Inr cur))"

definition redefine :: "vid \<Rightarrow> string \<Rightarrow> desc \<Rightarrow> desc \<Rightarrow> desc \<Rightarrow> bool \<Rightarrow> bool m" where
  "redefine v p cur keys d throwFlag =
     (if \<not> hasKeys keys then ret True
      else bnd (gets (\<lambda>s. sameDesc (heap s) cur d)) (\<lambda>same.
        if same then ret True
        else if \<not> truthy (dconfigurable cur) \<and>
                (truthy (dconfigurable d) \<or>
                 (defined (denumerable d) \<and> fval (denumerable d) \<noteq> fval (denumerable cur)))
        then reject p throwFlag notConfigurableMismatch
        else bnd (validateChange cur d) (\<lambda>r.
          case r of
            Inl reason \<Rightarrow> reject p throwFlag reason
          | Inr target \<Rightarrow> seq (addProperty v p (copyKeys keys d target)) (ret True))))"

definition ObjectType_defineOwnProperty :: "vid \<Rightarrow> string \<Rightarrow> desc \<Rightarrow> bool \<Rightarrow> bool \<Rightarrow> bool m" where
  "ObjectType_defineOwnProperty v p desc throwFlag suppressEvent =
     bnd (getOwnProperty v p) (\<lambda>current.
     bnd (prepareDataDescriptor v desc) (\<lambda>(d, unknown).
       if unknown then defineUnknown v p d
       else
         bnd (gets (\<lambda>s. extensible (heap s v))) (\<lambda>ext.
           if current = None \<and> \<not> ext then reject p throwFlag ''object is not extensible''
           else
             seq (if \<not> suppressEvent then fireEvent (PropertyDefined v p) else ret ())
                 (case current of
                    None \<Rightarrow> defineNew v p d
                  | Some cur \<Rightarrow> redefine v p cur desc d throwFlag))))"

section \<open>Arrays\<close>

text \<open>
  \<open>positiveIntegerRegEx.test(p)\<close> for the expression \<open>/^\d*$/\<close>: every character is
  a decimal digit; the empty string passes.
\<close>

definition isDigit :: "char \<Rightarrow> bool" where
  "isDigit c = (48 \<le> (of_char c :: nat) \<and> (of_char c :: nat) \<le> 57)"

definition positiveIntegerRegEx_test :: "string \<Rightarrow> bool" where
  "positiveIntegerRegEx_test p = list_all isDigit p"

text \<open>The number that a string of decimal digits denotes.\<close>

definition digitsValue :: "string \<Rightarrow> nat" where
  "digitsValue p = foldl (\<lambda>n c. 10 * n + ((of_char c :: nat) - 48)) 0 p"

text \<open>
  The double nearest to a natural number, ties to the even significand of 53 bits,
  as the host rounds the result of \<open>parseInt\<close> and of an addition.
\<close>

definition natToDouble :: "nat \<Rightarrow> jsnum" where
  "natToDouble n =
     (if n < 2 ^ 53 then Fin (of_nat n)
      else
        let e = floorlog 2 n - 53;
            q = n div 2 ^ e;
            r = n mod 2 ^ e;
            q' = (if 2 ^ e < 2 * r \<or> (2 * r = 2 ^ e \<and> odd q) then q + 1 else q)
        in if 2 ^ 1024 \<le> q' * 2 ^ e then PosInf else Fin (of_nat (q' * 2 ^ e)))"

text \<open>\<open>parseInt(p, 10)\<close> for a string that passed the test above.\<close>

definition parseInt10 :: "string \<Rightarrow> jsnum" where
  "parseInt10 p = (if p = [] then NaN else natToDouble (digitsValue p))"

text \<open>\<open>parsedP + 1\<close> for the result of \<open>parseInt\<close>.\<close>

fun js_add_one :: "jsnum \<Rightarrow> jsnum" where
  "js_add_one (Fin r) = natToDouble (nat \<lfloor>r\<rfloor> + 1)"
| "js_add_one NegZero = Fin 1"
| "js_add_one x = x"

text \<open>The host conversion to a number that \<open>>=\<close> applies to its right operand.\<close>

fun hostToNumber :: "host \<Rightarrow> hostval \<Rightarrow> jsnum" where
  "hostToNumber H HUndefined = NaN"
| "hostToNumber H HNull = Fin 0"
| "hostToNumber H (HBoolean b) = Fin (if b then 1 else 0)"
| "hostToNumber H (HNumber n) = n"
| "hostToNumber H (HString str) = strToNum H str"

definition lengthDescriptor :: "vid \<Rightarrow> desc" where
  "lengthDescriptor n =
     noKeys\<lparr> dvalue := Def n, dwritable := Def True, denumerable := Def False,
             dconfigurable := Def False \<rparr>"

text \<open>
  \<open>ArrayType.prototype.defineOwnProperty(p)\<close>: the result of the method of the
  parent is dropped, and the method ends without a \<open>return\<close>.
\<close>

definition ArrayType_defineOwnProperty ::
    "host \<Rightarrow> nat \<Rightarrow> vid \<Rightarrow> string \<Rightarrow> desc \<Rightarrow> bool \<Rightarrow> bool \<Rightarrow> unit m" where
  "ArrayType_defineOwnProperty H k v p desc throwFlag suppressEvent =
     bnd (ObjectType_defineOwnProperty v p desc throwFlag suppressEvent) (\<lambda>_.
       if positiveIntegerRegEx_test p then
         bnd (get H k v ''length'') (\<lambda>len.
         bnd (getContent len) (\<lambda>c.
           if js_ge (parseInt10 p) (hostToNumber H (valueField c))
           then bnd (newNumberType (js_add_one (parseInt10 p))) (\<lambda>n.
                  addProperty v ''length'' (lengthDescriptor n))
           else ret ()))
       else ret ())"

text \<open>The call \<open>o.defineOwnProperty(...)\<close>; \<open>None\<close> is the result \<open>undefined\<close>.\<close>

definition defineOwnProperty ::
    "host \<Rightarrow> nat \<Rightarrow> vid \<Rightarrow> string \<Rightarrow> desc \<Rightarrow> bool \<Rightarrow> bool \<Rightarrow> bool option m" where
  "defineOwnProperty H k v p desc throwFlag suppressEvent =
     bnd (gets (\<lambda>s. arrayInstance (heap s v))) (\<lambda>isArray.
       if isArray
       then bnd (ArrayType_defineOwnProperty H k v p desc throwFlag suppressEvent) (\<lambda>_. ret None)
       else bnd (ObjectType_defineOwnProperty v p desc throwFlag suppressEvent) (\<lambda>b. ret (Some b)))"

text \<open>\<open>String(i)\<close> for a non-negative integer below \<open>10^21\<close>: its decimal digits.\<close>

fun decimalString :: "nat \<Rightarrow> string" where
  "decimalString n =
     (if n < 10 then [char_of (48 + n)]
      else decimalString (n div 10) @ [char_of (48 + n mod 10)])"

section \<open>Put and Delete\<close>

text \<open>
  \<open>put(p, v, throwFlag, suppressEvent)\<close>. When \<open>canPut\<close> is falsy and \<open>throwFlag\<close>
  is set, the method goes on after the recoverable exception.
\<close>

definition put :: "host \<Rightarrow> nat \<Rightarrow> vid \<Rightarrow> string \<Rightarrow> vid \<Rightarrow> bool \<Rightarrow> bool \<Rightarrow> unit m" where
  "put H k o' p v throwFlag suppressEvent =
     bnd (canPut k o' p) (\<lambda>canPutP.
       case canPutP of
         CanPutUnknown \<Rightarrow> ret ()
       | CanPut b \<Rightarrow>
           bnd (if \<not> b then
                  (if throwFlag
                   then seq (handleRecoverableNativeException ''TypeError'' ''Cannot put argument'')
                        (bnd newUnknownType (\<lambda>u.
                         bnd (defineOwnProperty H k o' p (noKeys\<lparr> dvalue := Def u \<rparr>) throwFlag suppressEvent)
                           (\<lambda>_. ret True)))
                   else ret False)
                else ret True) (\<lambda>goOn.
           if \<not> goOn then ret ()
           else
             seq (if \<not> suppressEvent then fireEvent (PropertySet o' p v) else ret ())
            (bnd (getOwnProperty o' p) (\<lambda>ownDesc.
               if isDataDescriptorOpt ownDesc
               then bnd (defineOwnProperty H k o' p (noKeys\<lparr> dvalue := Def v \<rparr>) throwFlag suppressEvent)
                      (\<lambda>_. ret ())
               else
                 bnd (getProperty k o' p) (\<lambda>desc.
                   if isAccessorDescriptorOpt desc
                   then (case dset (the desc) of
                           Def f \<Rightarrow> bnd (callFunction H f (Some o') [v]) (\<lambda>_. ret ())
                         | _ \<Rightarrow> throw typeError)
                   else bnd (defineOwnProperty H k o' p
                               (noKeys\<lparr> dvalue := Def v, dwritable := Def True,
                                       denumerable := Def True, dconfigurable := Def True \<rparr>)
                               throwFlag suppressEvent)
                          (\<lambda>_. ret ()))))))"


section \<open>Declarative environment records\<close>

definition updateBinding :: "recid \<Rightarrow> string \<Rightarrow> (binding \<Rightarrow> binding) \<Rightarrow> unit m" where
  "updateBinding r n f =
     modify (\<lambda>s. s\<lparr> envRecs := (envRecs s)
        (r := (envRecs s r)\<lparr> bindings := (bindings (envRecs s r))
                 (n := map_option f (bindings (envRecs s r) n)) \<rparr>) \<rparr>)"

definition getBindingValue :: "recid \<Rightarrow> string \<Rightarrow> bool \<Rightarrow> vid m" where
  "getBindingValue r n strict =
     bnd (gets (\<lambda>s. bindings (envRecs s r) n)) (\<lambda>b.
       case b of
         None \<Rightarrow> throw (HostError (''Could not get value: binding '' @ [CHR 0x22] @ n @ [CHR 0x22]
                                      @ '' does not exist''))
       | Some x \<Rightarrow>
           if strict \<and> \<not> isMutable x \<and> isInitialized x \<noteq> Some True
           then seq (handleRecoverableNativeException ''ReferenceError''
                       (''Could not get value: binding '' @ [CHR 0x22] @ n @ [CHR 0x22]
                        @ '' has not been initialized''))
                    newUnknownType
           else ret (bvalue x))"

text \<open>
  The test \<open>type(v) === 'Unknown' || !this.getBindingValue(n)._isLocal() ||
  isAmbiguousBlock()\<close> of \<open>setMutableBinding\<close>.
\<close>

definition storesUnknown :: "recid \<Rightarrow> string \<Rightarrow> vid \<Rightarrow> bool m" where
  "storesUnknown r n v =
     bnd (getContent v) (\<lambda>c.
       if type_of c = ''Unknown'' then ret True
       else bnd (getBindingValue r n False) (\<lambda>cur.
            bnd (isLocal cur) (\<lambda>l. if \<not> l then ret True else isAmbiguousBlock)))"

text \<open>
  The test \<open>isLocalSkippedMode() || !this.getBindingValue(n)._isSkippedLocal()\<close> of
  \<open>setMutableBinding\<close>.
\<close>

definition writesAlternate :: "recid \<Rightarrow> string \<Rightarrow> bool m" where
  "writesAlternate r n =
     bnd isLocalSkippedMode (\<lambda>localSkipped.
       if localSkipped then ret True
       else bnd (getBindingValue r n False) (\<lambda>cur.
            bnd (isSkippedLocal cur) (\<lambda>l. ret (\<not> l))))"

definition setMutableBinding :: "recid \<Rightarrow> string \<Rightarrow> vid \<Rightarrow> bool \<Rightarrow> unit m" where
  "setMutableBinding r n v strict =
     bnd (gets (\<lambda>s. bindings (envRecs s r) n)) (\<lambda>b.
       case b of
         None \<Rightarrow> throw (HostError (''Could not set mutable binding: binding '' @ [CHR 0x22] @ n
                                      @ [CHR 0x22] @ '' does not exist''))
       | Some x \<Rightarrow>
           bnd (if \<not> isMutable x then
                  (if strict
                   then seq (handleRecoverableNativeException ''TypeError''
                               (''Could not set binding: binding '' @ [CHR 0x22] @ n @ [CHR 0x22]
                                @ '' is not mutable''))
                        (bnd newUnknownType (\<lambda>u.
                         seq (updateBinding r n (\<lambda>y. y\<lparr> bvalue := u \<rparr>)) (ret True)))
                   else ret False)
                else ret True) (\<lambda>goOn.
           if \<not> goOn then ret ()
           else
             bnd (writesAlternate r n) (\<lambda>alternate.
             bnd (storesUnknown r n v) (\<lambda>unknown.
               if alternate
               then bnd (gets getSkippedSection) (\<lambda>section.
                    bnd (if unknown then newUnknownType else ret v) (\<lambda>x.
                      updateBinding r n
                        (\<lambda>y. y\<lparr> balternateValues := (balternateValues y)(section := Some x) \<rparr>)))
               else bnd (if unknown then newUnknownType else ret v) (\<lambda>x.
                      updateBinding r n (\<lambda>y. y\<lparr> bvalue := x \<rparr>))))))"

section \<open>Skipped mode\<close>

definition updateSkippedModeStack :: "recid \<Rightarrow> (nat list \<Rightarrow> nat list) \<Rightarrow> state \<Rightarrow> state" where
  "updateSkippedModeStack r f s =
     s\<lparr> envRecs := (envRecs s)
          (r := (envRecs s r)\<lparr> skippedModeStack := f (skippedModeStack (envRecs s r)) \<rparr>) \<rparr>"

text \<open>
  \<open>getCurrentContext().lexicalEnvironment.envRec._skippedModeStack.push(++skippedModeCounter)\<close>
\<close>

definition enterSkippedMode :: "unit m" where
  "enterSkippedMode =
     bnd theCurrentContext (\<lambda>k.
       modify (\<lambda>s. updateSkippedModeStack (currentEnvRec s k)
                      (\<lambda>st. st @ [skippedModeCounter s + 1])
                      (s\<lparr> skippedModeCounter := skippedModeCounter s + 1 \<rparr>)))"

text \<open>\<open>getCurrentContext().lexicalEnvironment.envRec._skippedModeStack.pop()\<close>\<close>

definition exitSkippedMode :: "unit m" where
  "exitSkippedMode =
     bnd theCurrentContext (\<lambda>k. modify (\<lambda>s. updateSkippedModeStack (currentEnvRec s k) butlast s))"

text \<open>
  The loop over the closures: it ends with the value of the variable \<open>result\<close> and
  with the exception that stopped it, if any.
\<close>

fun runClosures :: "'r m list \<Rightarrow> 'r option \<Rightarrow> state \<Rightarrow> ('r option \<times> exc option) \<times> state" where
  "runClosures [] result s = ((result, None), s)"
| "runClosures (f # fs) result s =
     (case f s of
        (Normal x, s') \<Rightarrow> runClosures fs (Some x) s'
      | (Throw e, s') \<Rightarrow> ((result, Some e), s'))"

text \<open>
  \<open>processInSkippedMode(...)\<close>: the \<open>catch\<close> clause rethrows unless the exception
  is the engine's own and no recursion is being unrolled; the \<open>finally\<close> clause runs
  on every path, and an exception of its own replaces the pending outcome.
\<close>

definition processInSkippedMode :: "'r m list \<Rightarrow> 'r option m" where
  "processInSkippedMode fs = (\<lambda>s.
     if currentFileBlacklisted s then (Normal None, s)
     else
       (case enterSkippedMode s of
          (Throw e, s0) \<Rightarrow> (Throw e, s0)
        | (Normal u, s0) \<Rightarrow>
            (case runClosures fs None s0 of
               ((result, thrown), s1) \<Rightarrow>
                 (case exitSkippedMode s1 of
                    (Throw e, s2) \<Rightarrow> (Throw e, s2)
                  | (Normal u, s2) \<Rightarrow>
                      (case thrown of
                         None \<Rightarrow> (Normal result, s2)
                       | Some e \<Rightarrow>
                           if inRecursionUnroll s1 \<or> \<not> isCodeProcessorException e
                           then (Throw e, s2)
                           else (Normal result, s2))))))"

section \<open>References\<close>

text \<open>\<open>type(getBase(v))\<close>: an environment record has no \<open>type\<close>.\<close>

definition baseType :: "refbase \<Rightarrow> string option m" where
  "baseType b =
     (case b of
        BaseValue x \<Rightarrow> bnd (getContent x) (\<lambda>c. ret (Some (type_of c)))
      | BaseEnvRec r \<Rightarrow> ret None)"

definition putValue :: "host \<Rightarrow> nat \<Rightarrow> vid \<Rightarrow> vid \<Rightarrow> unit m" where
  "putValue H k v w =
     bnd (getContent v) (\<lambda>c.
       case c of
         ReferenceType base referencedName strictReference \<Rightarrow>
           (case base of
              None \<Rightarrow> throw typeError
            | Some b \<Rightarrow>
                bnd (baseType b) (\<lambda>t.
                  if t = Some ''Undefined'' then
                    (if strictReference
                     then throwNativeException ''ReferenceError'' (referencedName @ '' is not resolvable'')
                     else bnd (gets globalObject) (\<lambda>g.
                          seq (put H k g referencedName w False False)
                              (fireEvent (UndeclaredGlobalVariableCreated referencedName))))
                  else if t = Some ''Number'' \<or> t = Some ''String'' \<or> t = Some ''Boolean''
                          \<or> t = Some ''Object'' then
                    (case b of
                       BaseValue x \<Rightarrow>
                         if t = Some ''Object''
                         then bnd (gets (\<lambda>s. objectInstance (heap s x))) (\<lambda>isObj.
                                if isObj then put H k x referencedName w strictReference False
                                else throw noSuchMethod)
                         else putPrimitiveBase H x referencedName w strictReference
                     | BaseEnvRec r \<Rightarrow> throw typeError)
                  else
                    (case b of
                       BaseEnvRec r \<Rightarrow>
                         bnd (gets (\<lambda>s. bindingObject (envRecs s r))) (\<lambda>bo.
                           case bo of
                             Some x \<Rightarrow> put H k x referencedName w strictReference False
                           | None \<Rightarrow> setMutableBinding r referencedName w strictReference)
                     | BaseValue x \<Rightarrow> throw noSuchMethod)))
       | _ \<Rightarrow> throwNativeException ''ReferenceError'' ''Attempted to put a value to a non-reference'')"

section \<open>Notions for the statements\<close>

text \<open>
  Whether the first block of \<open>defineOwnProperty\<close> decides to store Unknown: the
  descriptor is a data descriptor and its value is Unknown, or is not local, or the
  current block is ambiguous.
\<close>

definition definesUnknown :: "vid \<Rightarrow> desc \<Rightarrow> state \<Rightarrow> bool" where
  "definesUnknown v d s =
     (case fst (prepareDataDescriptor v d s) of
        Normal (x, unknown) \<Rightarrow> unknown
      | Throw e \<Rightarrow> False)"

text \<open>The environment record of the current context.\<close>

definition topEnvRec :: "state \<Rightarrow> recid" where
  "topEnvRec s = currentEnvRec s (last (contextStack s))"

text \<open>The content of the value that \<open>a.get('length')\<close> returns, if it returns.\<close>

definition lengthOf :: "host \<Rightarrow> vid \<Rightarrow> state \<Rightarrow> content option" where
  "lengthOf H a s =
     (case get H 1 a ''length'' s of
        (Normal m, s') \<Rightarrow> Some (content (heap s' m))
      | (Throw e, s') \<Rightarrow> None)"

text \<open>The data descriptor \<open>{value: v, writable: true, enumerable: true, configurable: true}\<close>.\<close>

definition plainDescriptor :: "vid \<Rightarrow> desc" where
  "plainDescriptor v =
     noKeys\<lparr> dvalue := Def v, dwritable := Def True, denumerable := Def True,
             dconfigurable := Def True \<rparr>"

text \<open>
  Two relations between a state and a later one. \<open>stable\<close>: the contexts, the
  context stack, the environment records and the options are the same, and every
  value that existed keeps all but its closure. \<open>stableExcept a p\<close>: the same, but
  of the properties of \<open>a\<close> only those with another name than \<open>p\<close> are kept, and
  \<open>a\<close> keeps its closure.
\<close>

definition stable :: "state \<Rightarrow> state \<Rightarrow> bool" where
  "stable s s' =
     (nextId s \<le> nextId s' \<and> contexts s' = contexts s \<and> contextStack s' = contextStack s
      \<and> envRecs s' = envRecs s \<and> globalObject s' = globalObject s
      \<and> nativeExceptionRecovery s' = nativeExceptionRecovery s \<and> exactMode s' = exactMode s
      \<and> (\<forall>v<nextId s. content (heap s' v) = content (heap s v)
            \<and> properties (heap s' v) = properties (heap s v)
            \<and> extensible (heap s' v) = extensible (heap s v)
            \<and> objectPrototype (heap s' v) = objectPrototype (heap s v)
            \<and> objectInstance (heap s' v) = objectInstance (heap s v)
            \<and> className (heap s' v) = className (heap s v)))"

definition stableExcept :: "vid \<Rightarrow> string \<Rightarrow> state \<Rightarrow> state \<Rightarrow> bool" where
  "stableExcept a p s s' =
     (nextId s \<le> nextId s' \<and> contexts s' = contexts s \<and> contextStack s' = contextStack s
      \<and> envRecs s' = envRecs s \<and> globalObject s' = globalObject s
      \<and> nativeExceptionRecovery s' = nativeExceptionRecovery s \<and> exactMode s' = exactMode s
      \<and> (\<forall>v<nextId s. content (heap s' v) = content (heap s v)
            \<and> extensible (heap s' v) = extensible (heap s v)
            \<and> objectPrototype (heap s' v) = objectPrototype (heap s v)
            \<and> objectInstance (heap s' v) = objectInstance (heap s v)
            \<and> className (heap s' v) = className (heap s v))
      \<and> (a < nextId s \<longrightarrow> closure (heap s' a) = closure (heap s a)
            \<and> (\<forall>q. q \<noteq> p \<longrightarrow> findEntry q (properties (heap s' a)) = findEntry q (properties (heap s a)))))"

definition preserves :: "(state \<Rightarrow> state \<Rightarrow> bool) \<Rightarrow> 'a m \<Rightarrow> bool" where
  "preserves R f = (\<forall>s. R s (snd (f s)))"

section \<open>States for the examples\<close>

definition emptyEnvRec :: envrec where
  "emptyEnvRec = \<lparr> bindings = (\<lambda>n. None), bindingObject = None, ambiguousContext = False,
                    skippedModeStack = [] \<rparr>"

text \<open>
  A state with the global context on the stack, recovery of native exceptions
  switched on and exact mode off; the store is filled by the examples.
\<close>

definition baseState :: state where
  "baseState = \<lparr> heap = (\<lambda>v. newCell ''Undefined'' UndefinedType), nextId = 0,
     contexts = (\<lambda>k. \<lparr> lexicalEnvironment = LexicalEnvironment k k None, ambiguousBlock = 0,
                      isFunctionContext = False \<rparr>),
     contextStack = [0], envRecs = (\<lambda>r. emptyEnvRec), globalObject = 0,
     functionContextCount = 0, tryCatch = 0,
     skippedModeCounter = 0, nativeExceptionRecovery = True, exactMode = False,
     inRecursionUnroll = False, currentFileBlacklisted = False, events = [] \<rparr>"

definition noHost :: host where
  "noHost = \<lparr> strToNum = (\<lambda>s. NaN),
     defaultValue = (\<lambda>v hint. throw (HostError ''not called'')),
     callFunction = (\<lambda>f t args. throw (HostError ''not called'')),
     putPrimitiveBase = (\<lambda>b n w s. throw (HostError ''not called'')) \<rparr>"

text \<open>Two numbers, at the identities 0 and 1.\<close>

definition numberHeap :: "jsnum \<Rightarrow> jsnum \<Rightarrow> vid \<Rightarrow> cell" where
  "numberHeap a b = (\<lambda>v. newCell ''Number'' (NumberType (if v = 0 then a else b)))"

definition numberState :: "jsnum \<Rightarrow> state" where
  "numberState a = baseState\<lparr> heap := numberHeap a a, nextId := 2 \<rparr>"

text \<open>An Unknown at every identity.\<close>

definition unknownHeap :: "vid \<Rightarrow> cell" where
  "unknownHeap = (\<lambda>v. newCell ''Unknown'' UnknownType)"

text \<open>The state \<open>baseState\<close> inside one \<open>try\<close> block.\<close>

definition tryCatchState :: state where
  "tryCatchState = baseState\<lparr> tryCatch := 1 \<rparr>"

text \<open>An object created in the global context, with the given properties.\<close>

definition objectCell :: "bool \<Rightarrow> entry list \<Rightarrow> cell" where
  "objectCell ext es = (newCell ''Object'' ObjectType)
     \<lparr> closure := ContextClosure 0, objectInstance := True, extensible := ext, properties := es \<rparr>"

definition dataEntry :: "string \<Rightarrow> vid \<Rightarrow> bool \<Rightarrow> bool \<Rightarrow> bool \<Rightarrow> entry" where
  "dataEntry p v w e c =
     \<lparr> ename = p,
       evalue = Descriptor (noKeys\<lparr> dvalue := Def v, dwritable := Def w, denumerable := Def e,
                                    dconfigurable := Def c \<rparr>),
       ealternateValues = (\<lambda>k. None) \<rparr>"

text \<open>An object at 0 with the property \<open>x\<close>, not configurable, whose value is the number at 1.\<close>

definition deleteState :: state where
  "deleteState = baseState
     \<lparr> heap := (\<lambda>v. if v = 0 then objectCell True [dataEntry ''x'' 1 True True False]
                     else newCell ''Number'' (NumberType (Fin 1))),
       nextId := 2 \<rparr>"


text \<open>
  Two contexts: the global context 0, whose environment record 0 is in skipped mode
  (section 1), and above it the context 1 of a function called from the skipped
  code, with the environment record 1. The record 1 binds \<open>x\<close> to the value 0, and
  the values 0 and 1 (the number 7) were created in the context 1.
\<close>

definition functionContexts :: "ctxid \<Rightarrow> executionContext" where
  "functionContexts = (\<lambda>k.
     \<lparr> lexicalEnvironment =
         (if k = 0 then LexicalEnvironment 0 0 None
          else LexicalEnvironment k k (Some (LexicalEnvironment 0 0 None))),
       ambiguousBlock = 0, isFunctionContext = (k \<noteq> 0) \<rparr>)"

definition mutableBinding :: "vid \<Rightarrow> binding" where
  "mutableBinding v = \<lparr> bvalue = v, balternateValues = (\<lambda>k. None), isDeletable = False,
                        isMutable = True, isInitialized = None \<rparr>"

definition skippedCallerState :: state where
  "skippedCallerState = baseState
     \<lparr> heap := (\<lambda>v. (newCell ''Number'' (NumberType (Fin (if v = 0 then 0 else 7))))
                       \<lparr> closure := ContextClosure 1 \<rparr>),
       nextId := 2,
       contexts := functionContexts,
       contextStack := [0, 1],
       envRecs := (\<lambda>r. if r = 0 then emptyEnvRec\<lparr> skippedModeStack := [1] \<rparr>
                        else emptyEnvRec\<lparr> bindings := (\<lambda>n. if n = ''x'' then Some (mutableBinding 0) else None) \<rparr>),
       skippedModeCounter := 1 \<rparr>"

text \<open>
  Three contexts: the global context 0 (record 0), which binds \<open>x\<close> to the value 0
  created there; the context 1, whose record 1 is in skipped mode (section 1); and
  above it the current context 2, whose record 2 is not in skipped mode.
\<close>

definition skippedOuterState :: state where
  "skippedOuterState = baseState
     \<lparr> heap := (\<lambda>v. (newCell ''Number'' (NumberType (Fin (if v = 0 then 0 else 7))))
                       \<lparr> closure := ContextClosure (if v = 0 then 0 else 2) \<rparr>),
       nextId := 2,
       contexts := functionContexts,
       contextStack := [0, 1, 2],
       envRecs := (\<lambda>r. if r = 0
                        then emptyEnvRec\<lparr> bindings := (\<lambda>n. if n = ''x'' then Some (mutableBinding 0) else None) \<rparr>
                        else if r = 1 then emptyEnvRec\<lparr> skippedModeStack := [1] \<rparr>
                        else emptyEnvRec),
       skippedModeCounter := 1 \<rparr>"

text \<open>
  A closure that enters the context 1 and throws a native exception before it
  leaves it, as a call does whose context creation throws.
\<close>

definition leakingCall :: "unit m" where
  "leakingCall =
     seq (enterContext 1)
         (throwNativeException ''TypeError'' ''thrown while the context is created'')"

text \<open>A closure that throws a native exception and changes nothing.\<close>

definition throwingClosure :: "unit m" where
  "throwingClosure = throwNativeException ''TypeError'' ''thrown in skipped mode''"

text \<open>
  An array at 0, created in the global context, whose length is the number 0 at 1;
  the number 7 at 2.
\<close>

definition numberCell :: "jsnum \<Rightarrow> cell" where
  "numberCell x = (newCell ''Number'' (NumberType x))\<lparr> closure := ContextClosure 0 \<rparr>"

definition arrayCell :: "vid \<Rightarrow> cell" where
  "arrayCell n = (objectCell True [dataEntry ''length'' n True False False])
     \<lparr> className := ''Array'', arrayInstance := True \<rparr>"

definition arrayState :: state where
  "arrayState = baseState
     \<lparr> heap := (\<lambda>v. if v = 0 then arrayCell 1 else if v = 1 then numberCell (Fin 0)
                     else numberCell (Fin 7)),
       nextId := 3 \<rparr>"

text \<open>The same state with the record of the global context in skipped mode (section 1).\<close>

definition skippedArrayState :: state where
  "skippedArrayState = arrayState
     \<lparr> envRecs := (\<lambda>r. emptyEnvRec\<lparr> skippedModeStack := [1] \<rparr>), skippedModeCounter := 1 \<rparr>"

text \<open>
  The global object at 0, extensible and without properties, whose closure is the
  object itself; at 1 and 4 a reference to the unresolvable name \<open>x\<close>, not strict
  and strict, with the Undefined at 2 as its base; the number 7 at 3.
\<close>

definition globalState :: state where
  "globalState = baseState
     \<lparr> heap := (\<lambda>v. if v = 0 then (objectCell True [])\<lparr> closure := ObjectClosure 0 \<rparr>
                     else if v = 1
                       then newCell ''Reference'' (ReferenceType (Some (BaseValue 2)) ''x'' False)
                     else if v = 2 then newCell ''Undefined'' UndefinedType
                     else if v = 3 then numberCell (Fin 7)
                     else newCell ''Reference'' (ReferenceType (Some (BaseValue 2)) ''x'' True)),
       nextId := 5 \<rparr>"

text \<open>The same state inside an ambiguous block of the global context.\<close>

definition ambiguousGlobalState :: state where
  "ambiguousGlobalState = globalState
     \<lparr> contexts := (\<lambda>k. \<lparr> lexicalEnvironment = LexicalEnvironment k k None, ambiguousBlock = 1,
                          isFunctionContext = False \<rparr>) \<rparr>"

section \<open>Evaluation of the monad\<close>

lemmas monad_defs = ret_def throw_def bnd_def seq_def gets_def modify_def

lemmas example_defs = baseState_def emptyEnvRec_def numberState_def numberHeap_def newCell_def
  unknownHeap_def tryCatchState_def objectCell_def dataEntry_def deleteState_def noKeys_def
  noHost_def

section \<open>sameValue and strictEquals\<close>

text \<open>
  C7. \<open>sameValue\<close> compares the values of two Numbers with the host operator \<open>===\<close>:
  for \<open>+0\<close> and \<open>-0\<close> the answer is \<open>true\<close>, for \<open>NaN\<close> and \<open>NaN\<close> it is \<open>false\<close>,
  the opposite of what the SameValue algorithm of ES5.1 9.12 asks for.
\<close>

theorem sameValue_zeros_and_NaN:
  "sameValue (numberHeap (Fin 0) NegZero) (Some 0) (Some 1) = True
   \<and> sameValue (numberHeap NegZero (Fin 0)) (Some 0) (Some 1) = True
   \<and> sameValue (numberHeap NaN NaN) (Some 0) (Some 1) = False"
  by (simp add: sameValue_def numberHeap_def newCell_def)

text \<open>
  C8, as stated: \<open>strictEquals(x, x)\<close> is \<open>true\<close> if and only if the type of \<open>x\<close> is
  not Number or its value is not \<open>NaN\<close>. For an Unknown the right-hand side holds,
  but the function returns \<open>undefined\<close>.
\<close>

theorem strictEquals_unknown_counterexample:
  "\<not> ((strictEquals unknownHeap 0 0 = Some True)
       = (type_of (content (unknownHeap 0)) \<noteq> ''Number''
          \<or> valueField (content (unknownHeap 0)) \<noteq> HNumber NaN))"
  by (simp add: strictEquals_def unknownHeap_def newCell_def)

text \<open>
  C8, amended: for a value \<open>x\<close> of type Undefined, Null, Boolean, Number, String or
  Object, \<open>strictEquals(x, x)\<close> returns \<open>true\<close> if the type of \<open>x\<close> is not Number or
  its value is not \<open>NaN\<close>, and \<open>false\<close> otherwise; for a value of type Unknown or
  Reference it returns \<open>undefined\<close>.
\<close>

theorem strictEquals_reflexive:
  "strictEquals h x x =
     (if type_of (content (h x)) = ''Unknown'' \<or> type_of (content (h x)) = ''Reference'' then None
      else Some (type_of (content (h x)) \<noteq> ''Number'' \<or> valueField (content (h x)) \<noteq> HNumber NaN))"
proof (cases "content (h x)")
  case (NumberType n)
  then show ?thesis by (cases n) (simp_all add: strictEquals_def)
qed (simp_all add: strictEquals_def)

theorem strictEquals_reflexive_witness:
  "strictEquals (numberHeap (Fin 3) NaN) 0 0 = Some True
   \<and> strictEquals (numberHeap (Fin 3) NaN) 1 1 = Some False
   \<and> strictEquals unknownHeap 0 0 = None"
  using strictEquals_reflexive [of "numberHeap (Fin 3) NaN" 0]
    strictEquals_reflexive [of "numberHeap (Fin 3) NaN" 1]
    strictEquals_reflexive [of unknownHeap 0]
  by (simp add: numberHeap_def unknownHeap_def newCell_def)

section \<open>Recoverable native exceptions\<close>

text \<open>
  C4. Inside a \<open>try\<close> block (the try-catch counter is 1), with the recovery of
  native exceptions on and exact mode off, \<open>handleRecoverableNativeException\<close>
  reports the error and returns; it does not throw. The function does not read
  the counter.
\<close>

theorem handleRecoverableNativeException_in_tryCatch:
  "inTryCatch tryCatchState \<and> nativeExceptionRecovery tryCatchState \<and> \<not> exactMode tryCatchState
   \<and> handleRecoverableNativeException ''TypeError'' ''message'' tryCatchState
       = (Normal (), tryCatchState\<lparr> events := [ErrorReported ''TypeError'' ''message''] \<rparr>)"
  by (simp add: handleRecoverableNativeException_def isSkippedMode_def inTryCatch_def
      reportError_def currentEnvRec_def monad_defs example_defs)

section \<open>toInt32\<close>

lemma frem_of_int: "frem (of_int z) (2 ^ 32) = of_int (z mod 2 ^ 32)"
proof -
  have "\<lfloor>(of_int z :: rat) / 2 ^ 32\<rfloor> = z div 2 ^ 32"
    using floor_divide_of_int_eq [of z "2 ^ 32", where ?'a = rat] by simp
  then have "frem (of_int z) (2 ^ 32) = of_int z - 2 ^ 32 * of_int (z div 2 ^ 32)"
    by (simp add: frem_def)
  also have "\<dots> = of_int (z - 2 ^ 32 * (z div 2 ^ 32))" by simp
  also have "z - 2 ^ 32 * (z div 2 ^ 32) = z mod 2 ^ 32"
    by (simp add: minus_mult_div_eq_mod)
  finally show ?thesis .
qed

text \<open>
  The results of \<open>toInt32_value\<close> on finite numbers are \<open>-0\<close> and the integers
  between \<open>-2^32\<close> and \<open>2^31\<close> (the remainder keeps the sign of a negative number,
  so the range is wider than that of ES5.1 9.5), and each of them is a fixed
  point up to the sign of zero.
\<close>

lemma toInt32_value_fixed:
  assumes "x = NegZero \<or> (\<exists>z. x = Fin (of_int z) \<and> - (2 ^ 32) < z \<and> z < 2 ^ 31)"
  shows "js_eq (toInt32_value x) x"
proof -
  from assms consider (nz) "x = NegZero"
    | (int) z where "x = Fin (of_int z)" "- (2 ^ 32) < z" "z < 2 ^ 31"
    by auto
  then show ?thesis
  proof cases
    case nz
    then show ?thesis
      by (simp add: toInt32_value_def js_times_sign_def js_ge_def frem_def)
  next
    case int
    show ?thesis
    proof (cases "0 \<le> z")
      case True
      then have m: "z mod 2 ^ 32 = z" using int by simp
      have "js_rem (Fin (of_int z)) (2 ^ 32) = Fin (of_int z)"
        using True frem_of_int [of z] m by simp
      moreover have "\<not> js_ge (Fin (of_int z)) (Fin (2 ^ 31))"
        using int by (simp add: js_ge_def)
      moreover have "\<not> js_lt (Fin (of_int z)) (Fin 0)" using True by simp
      ultimately show ?thesis
        using True int(1) by (simp add: toInt32_value_def js_times_sign_def Let_def)
    next
      case False
      then have neg: "z < 0" by simp
      then have m: "(- z) mod 2 ^ 32 = - z" using int by simp
      have a: "js_abs (Fin (of_int z)) = Fin (of_int (- z))" using neg by simp
      have f: "js_floor (Fin (of_int (- z))) = Fin (of_int (- z))"
        by (metis floor_of_int js_floor.simps(1))
      have n: "js_neg (Fin (of_int (- z))) = Fin (of_int z)" using neg by simp
      have fr: "frem (- of_int z) (2 ^ 32) = of_int (- z)"
        using frem_of_int [of "- z"] m by simp
      have r: "js_rem (Fin (of_int z)) (2 ^ 32) = Fin (of_int z)"
        using neg fr by simp
      have g: "\<not> js_ge (Fin (of_int z)) (Fin (2 ^ 31))"
        using neg by (simp add: js_ge_def)
      have l: "js_lt (Fin (of_int z)) (Fin 0)" using neg by simp
      show ?thesis
        unfolding toInt32_value_def Let_def int(1) js_times_sign_def
        using a f n r g l by simp
    qed
  qed
qed

lemma toInt32_value_range:
  assumes "v = NegZero \<or> (\<exists>r. v = Fin r)"
  shows "toInt32_value v = NegZero
         \<or> (\<exists>z. toInt32_value v = Fin (of_int z) \<and> - (2 ^ 32) < z \<and> z < 2 ^ 31)"
proof -
  from assms consider (nz) "v = NegZero" | (fin) r where "v = Fin r" by auto
  then show ?thesis
  proof cases
    case nz
    have "toInt32_value NegZero = Fin (of_int 0)"
      by (simp add: toInt32_value_def js_times_sign_def js_ge_def frem_def)
    moreover have "- (2 ^ 32) < (0::int)" "(0::int) < 2 ^ 31" by simp_all
    ultimately show ?thesis unfolding nz by blast
  next
    case fin
    show ?thesis
    proof (cases "0 \<le> r")
      case True
      define m where "m = \<lfloor>r\<rfloor>"
      have m0: "0 \<le> m" using True by (simp add: m_def)
      define w where "w = m mod 2 ^ 32"
      have w: "0 \<le> w" "w < 2 ^ 32" by (simp_all add: w_def)
      have rem: "js_rem (js_times_sign (js_lt v (Fin 0)) (js_floor (js_abs v))) (2 ^ 32)
                 = Fin (of_int w)"
        using True frem_of_int [of m] m0 by (simp add: fin js_times_sign_def m_def w_def)
      show ?thesis
      proof (cases "2 ^ 31 \<le> w")
        case True
        then have ge: "js_ge (Fin (of_int w)) (Fin (2 ^ 31))"
          by (simp add: js_ge_def not_less)
        have "toInt32_value v = Fin (of_int (w - 2 ^ 32))"
          using rem ge by (simp add: toInt32_value_def Let_def fin)
        moreover have "- (2 ^ 32) < w - 2 ^ 32" "w - 2 ^ 32 < 2 ^ 31" using w True by simp_all
        ultimately show ?thesis by blast
      next
        case False
        then have ge: "\<not> js_ge (Fin (of_int w)) (Fin (2 ^ 31))"
          by (simp add: js_ge_def not_le)
        have "toInt32_value v = Fin (of_int w)"
          using rem ge by (simp add: toInt32_value_def Let_def fin)
        moreover have "- (2 ^ 32) < w" "w < 2 ^ 31" using w False by simp_all
        ultimately show ?thesis by blast
      qed
    next
      case False
      then have neg: "r < 0" by simp
      define m where "m = \<lfloor>- r\<rfloor>"
      have m0: "0 \<le> m" using neg by (simp add: m_def)
      define w where "w = m mod 2 ^ 32"
      have w: "0 \<le> w" "w < 2 ^ 32" by (simp_all add: w_def)
      have fl: "js_floor (js_abs v) = Fin (of_int m)" using neg by (simp add: fin m_def)
      have lt: "js_lt v (Fin 0)" using neg by (simp add: fin)
      have rem: "js_rem (js_times_sign (js_lt v (Fin 0)) (js_floor (js_abs v))) (2 ^ 32)
                 = (if w = 0 then NegZero else Fin (of_int (- w)))"
      proof (cases "m = 0")
        case True
        then show ?thesis using fl lt by (simp add: js_times_sign_def w_def)
      next
        case False
        then have mp: "0 < m" using m0 by simp
        have "js_times_sign (js_lt v (Fin 0)) (js_floor (js_abs v)) = Fin (- of_int m)"
          using fl lt False by (simp add: js_times_sign_def)
        then show ?thesis using mp frem_of_int [of m] by (simp add: w_def)
      qed
      show ?thesis
      proof (cases "w = 0")
        case True
        then have "toInt32_value v = NegZero"
          using rem by (simp add: toInt32_value_def Let_def fin js_ge_def)
        then show ?thesis by simp
      next
        case False
        then have wp: "0 < w" using w by simp
        have ge: "\<not> js_ge (Fin (of_int (- w))) (Fin (2 ^ 31))"
          using wp by (simp add: js_ge_def)
        have "toInt32_value v = Fin (of_int (- w))"
          using rem ge False by (simp add: toInt32_value_def Let_def fin)
        moreover have "- (2 ^ 32) < - w" "- w < 2 ^ 31" using w wp by simp_all
        ultimately show ?thesis by blast
      qed
    qed
  qed
qed

lemma toInt32_value_idempotent:
  "v = NegZero \<or> (\<exists>r. v = Fin r) \<Longrightarrow> js_eq (toInt32_value (toInt32_value v)) (toInt32_value v)"
  by (rule toInt32_value_fixed [OF toInt32_value_range])

text \<open>On a Number, \<open>toInt32\<close> returns a new Number that holds the converted value.\<close>

lemma toInt32_Number:
  assumes "n < nextId s" and "content (heap s n) = NumberType v"
  shows "\<exists>s'. toInt32 H (Suc k) (Some n) s = (Normal (nextId s), s')
           \<and> content (heap s' (nextId s)) = NumberType (toInt32_value v)
           \<and> nextId s' = Suc (nextId s)"
  using assms
  by (simp add: toInt32_def newNumberType_def construct_def orUndefined_def getContent_def
        setContent_def monad_defs)

text \<open>
  C9. For every Number \<open>n\<close> whose value is a finite double, \<open>toInt32(n)\<close> returns a
  Number \<open>a\<close>, \<open>toInt32(a)\<close> returns a Number \<open>b\<close>, and the value of \<open>b\<close> equals the
  value of \<open>a\<close> (by the host comparison \<open>===\<close>, which does not tell \<open>-0\<close> from \<open>+0\<close>).
\<close>

theorem toInt32_idempotent:
  assumes "n < nextId s" and "content (heap s n) = NumberType v"
    and "v = NegZero \<or> (\<exists>r. v = Fin r)"
  shows "\<exists>a s1 b s2 x y.
           toInt32 H (Suc k) (Some n) s = (Normal a, s1)
         \<and> toInt32 H (Suc j) (Some a) s1 = (Normal b, s2)
         \<and> content (heap s1 a) = NumberType x
         \<and> content (heap s2 b) = NumberType y
         \<and> js_eq y x"
proof -
  obtain s1 where 1: "toInt32 H (Suc k) (Some n) s = (Normal (nextId s), s1)"
      "content (heap s1 (nextId s)) = NumberType (toInt32_value v)" "nextId s1 = Suc (nextId s)"
    using toInt32_Number [OF assms(1,2)] by blast
  have lt: "nextId s < nextId s1" using 1(3) by simp
  obtain s2 where 2: "toInt32 H (Suc j) (Some (nextId s)) s1 = (Normal (nextId s1), s2)"
      "content (heap s2 (nextId s1)) = NumberType (toInt32_value (toInt32_value v))"
    using toInt32_Number [OF lt 1(2)] by blast
  have "js_eq (toInt32_value (toInt32_value v)) (toInt32_value v)"
    using assms(3) by (rule toInt32_value_idempotent)
  with 1 2 show ?thesis by blast
qed

theorem toInt32_idempotent_witness:
  "0 < nextId (numberState (Fin (- 5 / 2)))
   \<and> content (heap (numberState (Fin (- 5 / 2))) 0) = NumberType (Fin (- 5 / 2))
   \<and> (\<exists>a s1 b s2 x y.
           toInt32 noHost (Suc 0) (Some 0) (numberState (Fin (- 5 / 2))) = (Normal a, s1)
         \<and> toInt32 noHost (Suc 0) (Some a) s1 = (Normal b, s2)
         \<and> content (heap s1 a) = NumberType x
         \<and> content (heap s2 b) = NumberType y
         \<and> js_eq y x)"
  using toInt32_idempotent [of 0 "numberState (Fin (- 5 / 2))" "Fin (- 5 / 2)" noHost 0 0]
  by (simp add: example_defs)

section \<open>Delete\<close>

lemma getOwnProperty_known:
  "type_of (content (heap s v)) \<noteq> ''Unknown'' \<Longrightarrow>
   getOwnProperty v p s = (Normal (map_option copyDescriptor (lookupProperty s v p)), s)"
  by (simp add: getOwnProperty_def getContent_def monad_defs)



section \<open>Frame conditions\<close>

lemma preservesD: "preserves R f \<Longrightarrow> f s = (r, s') \<Longrightarrow> R s s'"
  by (auto simp: preserves_def dest: spec [of _ s])








lemma preserves_if: "preserves R f \<Longrightarrow> preserves R g \<Longrightarrow> preserves R (if b then f else g)"
  by simp














section \<open>defineOwnProperty on an object that is not extensible\<close>


text \<open>A descriptor that is no data descriptor is never stored as Unknown.\<close>

lemma definesUnknown_data: "\<not> isDataDescriptor d \<Longrightarrow> \<not> definesUnknown v d s"
  by (simp add: definesUnknown_def prepareDataDescriptor_def ret_def)




section \<open>setMutableBinding\<close>

lemma isLocalSkippedMode_pure: "snd (isLocalSkippedMode s) = s"
  by (simp add: isLocalSkippedMode_def theCurrentContext_def monad_defs split: option.split)

lemma isAmbiguousBlock_pure: "snd (isAmbiguousBlock s) = s"
  by (simp add: isAmbiguousBlock_def theCurrentContext_def monad_defs split: option.split)

lemma isSkippedLocal_pure: "snd (isSkippedLocal v s) = s"
  by (simp add: isSkippedLocal_def closureLexicalEnvironment_def monad_defs split: closure.split)

lemma isLocal_pure: "snd (isLocal v s) = s"
  by (simp add: isLocal_def closureLexicalEnvironment_def theCurrentContext_def monad_defs
      split: closure.split option.split)

text \<open>
  C2, as stated: whenever skipped mode is active, \<open>setMutableBinding\<close> writes only
  into the alternate values; when it is not active, it writes the primary slot.
  In \<open>skippedCallerState\<close> skipped mode is active (\<open>isSkippedMode()\<close> holds), and the
  assignment of the value 1 to the binding \<open>x\<close> of the called function replaces
  the primary value 0 and writes no alternate value. In \<open>skippedOuterState\<close> the
  current context is not in skipped mode (\<open>isLocalSkippedMode()\<close> does not hold),
  and the assignment to the binding \<open>x\<close> of the global record keeps the primary
  value 0 and writes the alternate value of section 1.
\<close>

theorem setMutableBinding_skipped_counterexample:
  "isSkippedMode skippedCallerState
   \<and> map_option bvalue (bindings (envRecs skippedCallerState 1) ''x'') = Some 0
   \<and> map_option bvalue
       (bindings (envRecs (snd (setMutableBinding 1 ''x'' 1 False skippedCallerState)) 1) ''x'')
       = Some 1
   \<and> map_option (\<lambda>b. balternateValues b (getSkippedSection skippedCallerState))
       (bindings (envRecs (snd (setMutableBinding 1 ''x'' 1 False skippedCallerState)) 1) ''x'')
       = Some None
   \<and> fst (isLocalSkippedMode skippedOuterState) = Normal False
   \<and> map_option bvalue
       (bindings (envRecs (snd (setMutableBinding 0 ''x'' 1 False skippedOuterState)) 0) ''x'')
       = Some 0
   \<and> map_option (\<lambda>b. balternateValues b (Some 1))
       (bindings (envRecs (snd (setMutableBinding 0 ''x'' 1 False skippedOuterState)) 0) ''x'')
       = Some (Some 1)"
  by (simp add: skippedCallerState_def skippedOuterState_def functionContexts_def
      mutableBinding_def example_defs isSkippedMode_def currentEnvRec_def setMutableBinding_def
      writesAlternate_def storesUnknown_def getBindingValue_def isLocalSkippedMode_def
      isSkippedLocal_def isLocal_def isAmbiguousBlock_def theCurrentContext_def
      getCurrentContext_def closureLexicalEnvironment_def getContent_def updateBinding_def
      getSkippedSection_def monad_defs)

text \<open>
  C2, amended: for an existing mutable binding \<open>n\<close>, \<open>setMutableBinding(n, v, s)\<close>
  writes only into the alternate values of the binding, under the current
  skipped-section id, and leaves the primary slot unchanged, if the current context
  is in skipped mode (\<open>isLocalSkippedMode()\<close>) or the current value of the binding is
  not skipped-local (\<open>_isSkippedLocal()\<close>); otherwise it writes the primary slot
  and leaves the alternate values unchanged. In both cases what it writes is a new
  Unknown if \<open>v\<close> is Unknown, the current value is not local, or the current block is
  ambiguous, and \<open>v\<close> otherwise.
\<close>

theorem setMutableBinding_slots:
  assumes b: "bindings (envRecs s r) n = Some b" "isMutable b"
    and ls: "fst (isLocalSkippedMode s) = Normal localSkipped"
    and sl: "fst (isSkippedLocal (bvalue b) s) = Normal skippedLocal"
    and lo: "fst (isLocal (bvalue b) s) = Normal local"
    and am: "fst (isAmbiguousBlock s) = Normal ambiguous"
    and un: "unknown = (type_of (content (heap s v)) = ''Unknown'' \<or> \<not> local \<or> ambiguous)"
    and ex: "unknown \<longrightarrow> \<not> exactMode s"
    and x: "x = (if unknown then nextId s else v)"
  shows "\<exists>s'. setMutableBinding r n v strict s = (Normal (), s')
           \<and> (unknown \<longrightarrow> content (heap s' x) = UnknownType)
           \<and> bindings (envRecs s' r) n =
               Some (if localSkipped \<or> \<not> skippedLocal
                     then b\<lparr> balternateValues := (balternateValues b)(getSkippedSection s := Some x) \<rparr>
                     else b\<lparr> bvalue := x \<rparr>)"
proof -
  have e1: "isLocalSkippedMode s = (Normal localSkipped, s)"
    using ls isLocalSkippedMode_pure [of s] by (metis prod.collapse)
  have e2: "isSkippedLocal (bvalue b) s = (Normal skippedLocal, s)"
    using sl isSkippedLocal_pure [of "bvalue b" s] by (metis prod.collapse)
  have e3: "isLocal (bvalue b) s = (Normal local, s)"
    using lo isLocal_pure [of "bvalue b" s] by (metis prod.collapse)
  have e4: "isAmbiguousBlock s = (Normal ambiguous, s)"
    using am isAmbiguousBlock_pure [of s] by (metis prod.collapse)
  have wa: "writesAlternate r n s = (Normal (localSkipped \<or> \<not> skippedLocal), s)"
    using b e1 e2 by (simp add: writesAlternate_def getBindingValue_def monad_defs)
  have su: "storesUnknown r n v s = (Normal unknown, s)"
    using b e3 e4 un by (simp add: storesUnknown_def getBindingValue_def getContent_def monad_defs)
  show ?thesis
    using b wa su ex x
    by (simp add: setMutableBinding_def updateBinding_def newUnknownType_def construct_def
        getSkippedSection_def monad_defs newCell_def)
qed

theorem setMutableBinding_slots_witness:
  "bindings (envRecs skippedOuterState 0) ''x'' = Some (mutableBinding 0)
   \<and> fst (isLocalSkippedMode skippedOuterState) = Normal False
   \<and> fst (isSkippedLocal 0 skippedOuterState) = Normal False
   \<and> fst (isLocal 0 skippedOuterState) = Normal True
   \<and> fst (isAmbiguousBlock skippedOuterState) = Normal False
   \<and> (\<exists>s'. setMutableBinding 0 ''x'' 1 False skippedOuterState = (Normal (), s')
         \<and> bindings (envRecs s' 0) ''x''
             = Some ((mutableBinding 0)\<lparr> balternateValues :=
                        (balternateValues (mutableBinding 0))(Some 1 := Some 1) \<rparr>))"
  using setMutableBinding_slots
          [of skippedOuterState 0 "''x''" "mutableBinding 0" False False True False False 1 1 False]
  by (simp add: skippedOuterState_def functionContexts_def mutableBinding_def example_defs
      currentEnvRec_def isLocalSkippedMode_def isSkippedLocal_def isLocal_def
      isAmbiguousBlock_def theCurrentContext_def getCurrentContext_def
      closureLexicalEnvironment_def getSkippedSection_def monad_defs)

section \<open>processInSkippedMode\<close>

lemma enterSkippedMode_eq:
  "contextStack s \<noteq> [] \<Longrightarrow>
   enterSkippedMode s = (Normal (), updateSkippedModeStack (topEnvRec s)
       (\<lambda>st. st @ [skippedModeCounter s + 1]) (s\<lparr> skippedModeCounter := skippedModeCounter s + 1 \<rparr>))"
  by (simp add: enterSkippedMode_def theCurrentContext_def getCurrentContext_def topEnvRec_def
      currentEnvRec_def updateSkippedModeStack_def monad_defs)

lemma exitSkippedMode_eq:
  "contextStack s \<noteq> [] \<Longrightarrow>
   exitSkippedMode s = (Normal (), updateSkippedModeStack (topEnvRec s) butlast s)"
  by (simp add: exitSkippedMode_def theCurrentContext_def getCurrentContext_def topEnvRec_def
      monad_defs)

lemma runClosures_keeps:
  assumes "\<And>f t. f \<in> set fs \<Longrightarrow> contextStack t \<noteq> [] \<Longrightarrow> topEnvRec t = \<rho> \<Longrightarrow>
             contextStack (snd (f t)) \<noteq> [] \<and> topEnvRec (snd (f t)) = \<rho>
             \<and> skippedModeStack (envRecs (snd (f t)) \<rho>) = skippedModeStack (envRecs t \<rho>)"
    and "contextStack s \<noteq> []" and "topEnvRec s = \<rho>"
  shows "contextStack (snd (runClosures fs res s)) \<noteq> []
       \<and> topEnvRec (snd (runClosures fs res s)) = \<rho>
       \<and> skippedModeStack (envRecs (snd (runClosures fs res s)) \<rho>) = skippedModeStack (envRecs s \<rho>)"
  using assms
proof (induction fs arbitrary: res s)
  case Nil
  then show ?case by simp
next
  case (Cons f fs)
  obtain r s' where fs': "f s = (r, s')" by fastforce
  have k: "contextStack s' \<noteq> [] \<and> topEnvRec s' = \<rho>
       \<and> skippedModeStack (envRecs s' \<rho>) = skippedModeStack (envRecs s \<rho>)"
    using Cons.prems(1) [of f s] Cons.prems(2,3) fs' by simp
  show ?case
  proof (cases r)
    case (Throw e)
    then show ?thesis using fs' k by simp
  next
    case (Normal x)
    have "contextStack (snd (runClosures fs (Some x) s')) \<noteq> []
       \<and> topEnvRec (snd (runClosures fs (Some x) s')) = \<rho>
       \<and> skippedModeStack (envRecs (snd (runClosures fs (Some x) s')) \<rho>)
           = skippedModeStack (envRecs s' \<rho>)"
      using Cons.IH [of s' "Some x"] Cons.prems(1) k by simp
    then show ?thesis using fs' Normal k by simp
  qed
qed

text \<open>
  C3, as stated: for every sequence of closures, on every exit path the
  skipped-mode stack of the environment record is restored. The closure
  \<open>leakingCall\<close> enters a context and throws before it leaves it; the exception is
  swallowed, the \<open>finally\<close> clause pops the stack of the record of the context
  that was left behind, and the record 0, whose stack was empty before the call,
  keeps the section 1.
\<close>

theorem processInSkippedMode_leak_counterexample:
  "skippedModeStack (envRecs baseState 0) = []
   \<and> fst (processInSkippedMode [leakingCall] baseState) = Normal None
   \<and> skippedModeStack (envRecs (snd (processInSkippedMode [leakingCall] baseState)) 0) = [1]"
  by (simp add: processInSkippedMode_def leakingCall_def enterContext_def throwNativeException_def
      enterSkippedMode_def exitSkippedMode_def theCurrentContext_def getCurrentContext_def
      updateSkippedModeStack_def currentEnvRec_def monad_defs example_defs)

text \<open>
  C3, amended: in a file that is not blacklisted, for every sequence of closures
  each of which, whether it returns or throws, leaves a current context with the
  same environment record and the skipped-mode stack of that record as it found
  it, \<open>processInSkippedMode\<close> restores the skipped-mode stack of the record on
  every exit path; an exception of a closure is swallowed (the call returns the
  last result) if it carries \<open>isCodeProcessorException\<close> and no recursion is being
  unrolled, and is propagated otherwise.
\<close>

theorem processInSkippedMode_restores:
  assumes "\<not> currentFileBlacklisted s" and "contextStack s \<noteq> []"
    and "\<And>f t. f \<in> set fs \<Longrightarrow> contextStack t \<noteq> [] \<Longrightarrow> topEnvRec t = topEnvRec s \<Longrightarrow>
             contextStack (snd (f t)) \<noteq> [] \<and> topEnvRec (snd (f t)) = topEnvRec s
             \<and> skippedModeStack (envRecs (snd (f t)) (topEnvRec s))
                 = skippedModeStack (envRecs t (topEnvRec s))"
  shows "skippedModeStack (envRecs (snd (processInSkippedMode fs s)) (topEnvRec s))
           = skippedModeStack (envRecs s (topEnvRec s))
       \<and> fst (processInSkippedMode fs s) =
           (case runClosures fs None (snd (enterSkippedMode s)) of
              ((result, None), s1) \<Rightarrow> Normal result
            | ((result, Some e), s1) \<Rightarrow>
                if inRecursionUnroll s1 \<or> \<not> isCodeProcessorException e then Throw e
                else Normal result)"
proof -
  define s0 where "s0 = updateSkippedModeStack (topEnvRec s)
       (\<lambda>st. st @ [skippedModeCounter s + 1]) (s\<lparr> skippedModeCounter := skippedModeCounter s + 1 \<rparr>)"
  have e: "enterSkippedMode s = (Normal (), s0)"
    using enterSkippedMode_eq [OF assms(2)] by (simp add: s0_def)
  have s0: "contextStack s0 \<noteq> []" "topEnvRec s0 = topEnvRec s"
      "skippedModeStack (envRecs s0 (topEnvRec s))
         = skippedModeStack (envRecs s (topEnvRec s)) @ [skippedModeCounter s + 1]"
    using assms(2)
    by (simp_all add: s0_def updateSkippedModeStack_def topEnvRec_def currentEnvRec_def)
  obtain result thrown s1 where rc: "runClosures fs None s0 = ((result, thrown), s1)"
    by (metis prod.collapse)
  have s1: "contextStack s1 \<noteq> []" "topEnvRec s1 = topEnvRec s"
      "skippedModeStack (envRecs s1 (topEnvRec s)) = skippedModeStack (envRecs s0 (topEnvRec s))"
    using runClosures_keeps [of fs "topEnvRec s" s0 None] assms(3) s0(1,2) rc by simp_all
  have x: "exitSkippedMode s1 = (Normal (), updateSkippedModeStack (topEnvRec s) butlast s1)"
    using exitSkippedMode_eq [OF s1(1)] s1(2) by simp
  have final:
    "skippedModeStack (envRecs (updateSkippedModeStack (topEnvRec s) butlast s1) (topEnvRec s))
       = skippedModeStack (envRecs s (topEnvRec s))"
    using s1(3) s0(3) by (simp add: updateSkippedModeStack_def)
  show ?thesis
    using assms(1) e rc x final
    by (simp add: processInSkippedMode_def split: option.split)
qed

theorem processInSkippedMode_restores_witness:
  "\<not> currentFileBlacklisted baseState \<and> contextStack baseState \<noteq> []
   \<and> skippedModeStack (envRecs (snd (processInSkippedMode [throwingClosure] baseState)) 0) = []
   \<and> fst (processInSkippedMode [throwingClosure] baseState) = Normal None"
  using processInSkippedMode_restores [of baseState "[throwingClosure]"]
  by (simp add: throwingClosure_def throwNativeException_def enterSkippedMode_def
      theCurrentContext_def getCurrentContext_def updateSkippedModeStack_def topEnvRec_def
      currentEnvRec_def monad_defs example_defs)

section \<open>The frame of defineOwnProperty\<close>

text \<open>
  \<open>ObjectType.prototype.defineOwnProperty\<close> on \<open>a\<close> and \<open>p\<close> changes, of what
  existed, only the property \<open>p\<close> of \<open>a\<close>, closures of other values, and the log of
  events.
\<close>

lemma stableExcept_refl: "stableExcept a p s s"
  by (simp add: stableExcept_def)

lemma stableExcept_trans: "stableExcept a p s t \<Longrightarrow> stableExcept a p t u \<Longrightarrow> stableExcept a p s u"
  unfolding stableExcept_def by (intro conjI) simp_all

lemma stable_stableExcept:
  "stable s t \<Longrightarrow> (a < nextId s \<longrightarrow> closure (heap t a) = closure (heap s a)) \<Longrightarrow> stableExcept a p s t"
  by (simp add: stable_def stableExcept_def)

lemma except_ret: "preserves (stableExcept a p) (ret x)"
  by (simp add: preserves_def ret_def stableExcept_refl)

lemma except_throw: "preserves (stableExcept a p) (throw x)"
  by (simp add: preserves_def throw_def stableExcept_refl)

lemma except_gets: "preserves (stableExcept a p) (gets x)"
  by (simp add: preserves_def gets_def stableExcept_refl)

lemma except_bnd:
  assumes "preserves (stableExcept a p) f" and "\<And>x. preserves (stableExcept a p) (g x)"
  shows "preserves (stableExcept a p) (bnd f g)"
  unfolding preserves_def
proof
  fix s
  have 1: "stableExcept a p s (snd (f s))" using assms(1) by (simp add: preserves_def)
  show "stableExcept a p s (snd (bnd f g s))"
  proof (cases "f s")
    case (Pair r s')
    show ?thesis
    proof (cases r)
      case (Normal x)
      have "stableExcept a p s' (snd (g x s'))" using assms(2) by (simp add: preserves_def)
      then show ?thesis using 1 Pair Normal by (auto simp: bnd_def intro: stableExcept_trans)
    next
      case (Throw e)
      then show ?thesis using 1 Pair by (simp add: bnd_def)
    qed
  qed
qed

lemma except_seq:
  "preserves (stableExcept a p) f \<Longrightarrow> preserves (stableExcept a p) g \<Longrightarrow>
   preserves (stableExcept a p) (seq f g)"
  by (simp add: seq_def except_bnd)

lemma except_construct: "preserves (stableExcept a p) (construct cn c)"
  by (simp add: preserves_def construct_def stableExcept_def)

lemma except_newUndefinedType: "preserves (stableExcept a p) newUndefinedType"
  by (simp add: newUndefinedType_def except_construct)

lemma except_newUnknownType: "preserves (stableExcept a p) newUnknownType"
  using except_construct [of a p "''Unknown''" UnknownType]
  by (simp add: newUnknownType_def preserves_def throw_def stableExcept_refl)

lemma except_newDataPropertyDescriptor: "preserves (stableExcept a p) newDataPropertyDescriptor"
  unfolding newDataPropertyDescriptor_def by (intro except_bnd except_newUndefinedType except_ret)

lemma except_getContent: "preserves (stableExcept a p) (getContent v)"
  by (simp add: getContent_def except_gets)

lemma except_fireEvent: "preserves (stableExcept a p) (fireEvent e)"
  by (simp add: fireEvent_def preserves_def modify_def stableExcept_def)

lemma except_handle: "preserves (stableExcept a p) (handleRecoverableNativeException t m)"
  by (simp add: handleRecoverableNativeException_def reportError_def throwNativeException_def
      preserves_def monad_defs stableExcept_def)

lemma except_theCurrentContext: "preserves (stableExcept a p) theCurrentContext"
  by (simp add: theCurrentContext_def preserves_def monad_defs stableExcept_refl split: option.split)

lemma except_closureLexicalEnvironment: "preserves (stableExcept a p) (closureLexicalEnvironment c)"
  by (cases c)
     (simp_all add: closureLexicalEnvironment_def except_gets except_ret except_throw)

lemmas except_intros = except_bnd except_seq preserves_if except_ret except_throw except_gets
  except_newUndefinedType except_newUnknownType except_newDataPropertyDescriptor
  except_getContent except_fireEvent except_handle except_theCurrentContext
  except_closureLexicalEnvironment

lemma except_getOwnProperty: "preserves (stableExcept a p) (getOwnProperty v q)"
  unfolding getOwnProperty_def by (intro except_intros)

lemma except_isLocalSkippedMode: "preserves (stableExcept a p) isLocalSkippedMode"
  unfolding isLocalSkippedMode_def by (intro except_intros)

lemma except_isSkippedLocal: "preserves (stableExcept a p) (isSkippedLocal v)"
  unfolding isSkippedLocal_def by (intro except_intros)

lemma except_reject: "preserves (stableExcept a p) (reject q tf m)"
  unfolding reject_def by (intro except_intros)

lemma findEntry_append_other:
  "q \<noteq> p \<Longrightarrow> findEntry q (es @ [\<lparr> ename = p, evalue = x, ealternateValues = y \<rparr>]) = findEntry q es"
  by (induction es) (simp_all add: findEntry_def)

lemma findEntry_updateEntry_other:
  "q \<noteq> p \<Longrightarrow> (\<And>e. ename (f e) = ename e) \<Longrightarrow> findEntry q (updateEntry p f es) = findEntry q es"
  by (induction es) (simp_all add: findEntry_def)

lemma except_setProperties:
  assumes "\<And>q es. q \<noteq> p \<Longrightarrow> findEntry q (f es) = findEntry q es"
  shows "preserves (stableExcept a p) (setProperties a f)"
  using assms by (simp add: setProperties_def preserves_def modify_def stableExcept_def)

lemma except_addProperty: "preserves (stableExcept a p) (addProperty a p d)"
  unfolding addProperty_def
  by (intro except_intros except_isLocalSkippedMode except_isSkippedLocal except_setProperties
        conjI impI allI
      | simp add: findEntry_append_other findEntry_updateEntry_other split: option.split)+


lemma updateClosure_result:
  "snd (updateClosure x tc s) = s
   \<or> snd (updateClosure x tc s) = s\<lparr> heap := (heap s)(x := (heap s x)\<lparr> closure := tc \<rparr>) \<rparr>"
  by (simp add: updateClosure_def closureLexicalEnvironment_def monad_defs split: closure.split)

lemma updateClosure_except: "stableExcept a p s (snd (updateClosure x (closure (heap s a)) s))"
  using updateClosure_result [of x "closure (heap s a)" s]
  by (auto simp: stableExcept_def split: if_splits)

lemma except_updateClosure_this:
  assumes "\<And>r. preserves (stableExcept a p) (g r)"
  shows "preserves (stableExcept a p)
           (bnd (gets (\<lambda>s. closure (heap s a))) (\<lambda>tc. bnd (updateClosure x tc) g))"
  unfolding preserves_def
proof
  fix s
  obtain r s1 where u: "updateClosure x (closure (heap s a)) s = (r, s1)" by fastforce
  have 1: "stableExcept a p s s1" using updateClosure_except [of a p s x] u by simp
  show "stableExcept a p s
          (snd (bnd (gets (\<lambda>s. closure (heap s a))) (\<lambda>tc. bnd (updateClosure x tc) g) s))"
  proof (cases r)
    case (Normal b)
    have "stableExcept a p s1 (snd (g b s1))" using assms by (simp add: preserves_def)
    then show ?thesis using 1 u Normal by (auto simp: bnd_def gets_def intro: stableExcept_trans)
  next
    case (Throw e)
    then show ?thesis using 1 u by (simp add: bnd_def gets_def)
  qed
qed

lemma except_isLocal: "preserves (stableExcept a p) (isLocal v)"
  unfolding isLocal_def by (intro except_intros)

lemma except_isAmbiguousBlock: "preserves (stableExcept a p) isAmbiguousBlock"
  unfolding isAmbiguousBlock_def by (intro except_intros)

lemma except_prepareDataDescriptor: "preserves (stableExcept a p) (prepareDataDescriptor a d)"
  unfolding prepareDataDescriptor_def
  by (intro except_intros except_updateClosure_this except_isLocal except_isAmbiguousBlock
        conjI impI allI
      | simp split: field.split)+

lemma except_defineUnknown: "preserves (stableExcept a p) (defineUnknown a p d)"
  unfolding defineUnknown_def by (intro except_intros except_addProperty)

lemma except_defineNew: "preserves (stableExcept a p) (defineNew a p d)"
  unfolding defineNew_def by (intro except_intros except_addProperty)

lemma except_validateChange: "preserves (stableExcept a p) (validateChange cur d)"
  unfolding validateChange_def by (intro except_intros)

lemma except_redefine: "preserves (stableExcept a p) (redefine a p cur keys d tf)"
  unfolding redefine_def
  by (intro except_intros except_validateChange except_reject except_addProperty
        conjI impI allI
      | simp split: sum.split)+

lemma except_ObjectType_defineOwnProperty:
  "preserves (stableExcept a p) (ObjectType_defineOwnProperty a p d tf se)"
  unfolding ObjectType_defineOwnProperty_def
  by (intro except_intros except_getOwnProperty except_prepareDataDescriptor except_defineUnknown
        except_reject except_defineNew except_redefine conjI impI allI
      | simp split: prod.split option.split)+



section \<open>The length of an array\<close>

declare decimalString.simps [simp del]

lemma digitsValue_snoc: "digitsValue (xs @ [c]) = 10 * digitsValue xs + ((of_char c :: nat) - 48)"
  by (simp add: digitsValue_def)

lemma of_char_digit: "d < 10 \<Longrightarrow> (of_char (char_of (48 + d)) :: nat) = 48 + d"
  by simp

lemma decimalString_digits: "list_all isDigit (decimalString i)"
proof (induction i rule: decimalString.induct)
  case (1 n)
  show ?case
  proof (cases "n < 10")
    case True
    then show ?thesis by (simp add: decimalString.simps [of n] isDigit_def)
  next
    case False
    have "n mod 10 < 10" by simp
    then have "isDigit (char_of (48 + n mod 10))"
      unfolding isDigit_def using of_char_digit [of "n mod 10"] by simp
    then show ?thesis using False 1 by (simp add: decimalString.simps [of n])
  qed
qed

lemma decimalString_value: "digitsValue (decimalString i) = i"
proof (induction i rule: decimalString.induct)
  case (1 n)
  show ?case
  proof (cases "n < 10")
    case True
    then show ?thesis by (simp add: decimalString.simps [of n] digitsValue_def)
  next
    case False
    have "(of_char (char_of (48 + n mod 10)) :: nat) = 48 + n mod 10"
      using of_char_digit [of "n mod 10"] by simp
    then show ?thesis using False 1 by (simp add: decimalString.simps [of n] digitsValue_snoc)
  qed
qed

lemma decimalString_nonempty: "decimalString i \<noteq> []"
  by (simp add: decimalString.simps [of i])

lemma decimalString_not_length: "decimalString i \<noteq> ''length''"
  using decimalString_digits [of i] by (auto simp: isDigit_def)

lemma parseInt10_decimalString: "i < 2 ^ 53 \<Longrightarrow> parseInt10 (decimalString i) = Fin (of_nat i)"
  by (simp add: parseInt10_def decimalString_nonempty decimalString_value natToDouble_def)

lemma js_add_one_nat: "i + 1 < 2 ^ 53 \<Longrightarrow> js_add_one (Fin (of_nat i)) = Fin (of_nat i + 1)"
  by (simp add: natToDouble_def)

lemma not_skipped_local:
  "\<not> isSkippedMode s \<Longrightarrow> contextStack s \<noteq> [] \<Longrightarrow> isLocalSkippedMode s = (Normal False, s)"
  by (auto simp: isSkippedMode_def isLocalSkippedMode_def theCurrentContext_def
      getCurrentContext_def list_ex_iff monad_defs)

lemma isSkippedLocal_loop_none:
  "\<forall>k\<in>set ks. skippedModeStack (envRecs s (currentEnvRec s k)) = [] \<Longrightarrow>
   isSkippedLocal_loop s t ks"
  by (induction ks) simp_all

lemma not_skipped_isSkippedLocal:
  "\<not> isSkippedMode s \<Longrightarrow> closure (heap s v) \<noteq> NoClosure \<Longrightarrow> isSkippedLocal v s = (Normal True, s)"
  using isSkippedLocal_loop_none [of "rev (contextStack s)" s]
  by (cases "closure (heap s v)")
     (auto simp: isSkippedMode_def isSkippedLocal_def closureLexicalEnvironment_def list_ex_iff
       monad_defs)

lemma addProperty_existing:
  assumes "findEntry q (properties (heap s a)) = Some e" and "contextStack s \<noteq> []"
    and "\<not> isSkippedMode s" and "closure (heap s a) \<noteq> NoClosure"
  shows "addProperty a q d s =
           (Normal (), s\<lparr> heap := (heap s)(a := (heap s a)
              \<lparr> properties := updateEntry q (\<lambda>e. e\<lparr> evalue := Descriptor d \<rparr>) (properties (heap s a)) \<rparr>) \<rparr>)"
  using assms not_skipped_local [OF assms(3,2)] not_skipped_isSkippedLocal [OF assms(3,4)]
  by (simp add: addProperty_def setProperties_def monad_defs)

lemma findEntry_updateEntry_same:
  "findEntry q es = Some e \<Longrightarrow> (\<And>x. ename (f x) = ename x) \<Longrightarrow>
   findEntry q (updateEntry q f es) = Some (f e)"
  by (induction es) (auto simp: findEntry_def split: if_splits)

lemma get_own_data:
  assumes "type_of (content (heap s a)) \<noteq> ''Unknown''"
    and "lookupProperty s a q = Some (Descriptor d)" and "dvalue d = Def n"
  shows "get H (Suc k) a q s =
           (Normal n, s\<lparr> events := events s @ [PropertyReferenced a q (Some (copyDescriptor (Descriptor d)))] \<rparr>)"
  using assms
  by (simp add: get_def getOwnProperty_known get_lookup_def copyDescriptor_def isDataDescriptor_def
      assigned_def fireEvent_def noKeys_def monad_defs)


lemma lengthOf_data:
  assumes "type_of (content (heap s a)) \<noteq> ''Unknown''"
    and "lookupProperty s a ''length'' = Some (Descriptor d)" and "dvalue d = Def n"
  shows "lengthOf H a s = Some (content (heap s n))"
  using get_own_data [OF assms, of H 0] by (simp add: lengthOf_def)


text \<open>The definitions that the evaluation of an example unfolds.\<close>

lemmas eval_defs = example_defs numberCell_def arrayCell_def arrayState_def skippedArrayState_def
  globalState_def ambiguousGlobalState_def plainDescriptor_def lengthDescriptor_def
  lookupProperty_def findEntry_def
  ObjectType_defineOwnProperty_def ArrayType_defineOwnProperty_def defineOwnProperty_def
  getOwnProperty_def getProperty.simps get_def get_lookup_def lengthOf_def canPut_def put_def
  putValue_def baseType_def getContent_def prepareDataDescriptor_def
  isDataDescriptor_def isAccessorDescriptor_def isDataDescriptorOpt_def isAccessorDescriptorOpt_def
  copyDescriptor_def assigned_def
  updateClosure_def closureLexicalEnvironment_def defineUnknown_def defineNew_def
  newDataPropertyDescriptor_def newUndefinedType_def newUnknownType_def newNumberType_def
  construct_def getCurrentContext_def addProperty_def setProperties_def isLocalSkippedMode_def
  isLocal_def isAmbiguousBlock_def fireEvent_def getSkippedSection_def
  theCurrentContext_def currentEnvRec_def isSkippedLocal_def ifDefined_def
  positiveIntegerRegEx_test_def isDigit_def parseInt10_def digitsValue_def natToDouble_def js_ge_def
  throwNativeException_def monad_defs

lemma decimalString_zero: "decimalString 0 = ''0''"
  by code_simp

text \<open>
  C6, as stated: after \<open>a.defineOwnProperty(String(i), {value: v, writable: true,
  enumerable: true, configurable: true})\<close> the value of \<open>a.get('length')\<close> is
  greater than \<open>i\<close>. In \<open>skippedArrayState\<close> the current context is in skipped mode:
  the method of the parent succeeds on the array at 0 with \<open>i = 0\<close>, the new
  length goes to the alternate values, and \<open>a.get('length')\<close> is still \<open>0\<close>.
\<close>

theorem ArrayType_defineOwnProperty_skipped_counterexample:
  "fst (ObjectType_defineOwnProperty 0 ''0'' (plainDescriptor 2) False False skippedArrayState)
       = Normal True
   \<and> fst (defineOwnProperty noHost 1 0 ''0'' (plainDescriptor 2) False False skippedArrayState)
       = Normal None
   \<and> lengthOf noHost 0
        (snd (defineOwnProperty noHost 1 0 ''0'' (plainDescriptor 2) False False skippedArrayState))
       = Some (NumberType (Fin 0))
   \<and> \<not> js_lt (Fin 0) (Fin 0)"
  by (simp add: eval_defs)

text \<open>
  C6, amended: for every array \<open>a\<close> whose own property \<open>length\<close> is a data property
  holding a Number other than \<open>NaN\<close>, every non-negative integer \<open>i\<close> below
  \<open>2^53 - 1\<close> and every value \<open>v\<close>, in a state where no context is in skipped mode:
  if the \<open>defineOwnProperty\<close> of \<open>ObjectType\<close> succeeds for \<open>String(i)\<close> and the
  descriptor \<open>{value: v, writable: true, enumerable: true, configurable: true}\<close>,
  then the method of the array returns (\<open>undefined\<close>), afterwards
  \<open>a.get('length')\<close> is a Number greater than \<open>i\<close>, and the length is \<open>i + 1\<close> if
  \<open>i\<close> is at least the length before, and unchanged otherwise.
\<close>

theorem ArrayType_defineOwnProperty_length:
  assumes a: "a < nextId s" "arrayInstance (heap s a)" "type_of (content (heap s a)) = ''Object''"
      "closure (heap s a) \<noteq> NoClosure"
    and ctx: "contextStack s \<noteq> []" "\<not> isSkippedMode s"
    and len: "lookupProperty s a ''length'' = Some (Descriptor d)" "dvalue d = Def n0"
      "n0 < nextId s" "content (heap s n0) = NumberType lv" "\<not> isNaN lv"
    and i: "i + 1 < 2 ^ 53"
    and base: "fst (ObjectType_defineOwnProperty a (decimalString i) (plainDescriptor v)
                      throwFlag suppressEvent s) = Normal True"
  shows "\<exists>s2. defineOwnProperty H (Suc k) a (decimalString i) (plainDescriptor v)
                 throwFlag suppressEvent s = (Normal None, s2)
           \<and> lengthOf H a s2
               = Some (NumberType (if js_ge (Fin (of_nat i)) lv then Fin (of_nat i + 1) else lv))
           \<and> js_lt (Fin (of_nat i)) (if js_ge (Fin (of_nat i)) lv then Fin (of_nat i + 1) else lv)"
proof -
  let ?p = "decimalString i"
  obtain s1 where b1: "ObjectType_defineOwnProperty a ?p (plainDescriptor v) throwFlag suppressEvent s
                        = (Normal True, s1)"
    using base by (metis prod.collapse)
  have fr: "stableExcept a ?p s s1"
    using preservesD [OF except_ObjectType_defineOwnProperty b1] .
  have pl: "''length'' \<noteq> ?p" using decimalString_not_length [of i] by simp
  have k1: "type_of (content (heap s1 a)) \<noteq> ''Unknown''"
    using fr a(1,3) by (simp add: stableExcept_def)
  have l1: "lookupProperty s1 a ''length'' = Some (Descriptor d)"
    using fr a(1) len(1) pl by (simp add: stableExcept_def lookupProperty_def)
  have c1: "content (heap s1 n0) = NumberType lv"
    using fr len(3,4) by (simp add: stableExcept_def)
  have x1: "contextStack s1 \<noteq> []" "\<not> isSkippedMode s1" "closure (heap s1 a) \<noteq> NoClosure"
      "a < nextId s1"
    using fr a(1,4) ctx by (simp_all add: stableExcept_def isSkippedMode_def currentEnvRec_def)
  define s1e where "s1e = s1\<lparr> events := events s1
       @ [PropertyReferenced a ''length'' (Some (copyDescriptor (Descriptor d)))] \<rparr>"
  have g1: "get H (Suc k) a ''length'' s1 = (Normal n0, s1e)"
    using get_own_data [OF k1 l1 len(2)] by (simp add: s1e_def)
  have pi: "parseInt10 ?p = Fin (of_nat i)" using i parseInt10_decimalString [of i] by simp
  have dg: "positiveIntegerRegEx_test ?p"
    by (simp add: positiveIntegerRegEx_test_def decimalString_digits)
  show ?thesis
  proof (cases "js_ge (Fin (of_nat i)) lv")
    case False
    have whole: "defineOwnProperty H (Suc k) a ?p (plainDescriptor v) throwFlag suppressEvent s
                   = (Normal None, s1e)"
      using a(2) b1 g1 c1 pi dg False
      by (simp add: defineOwnProperty_def ArrayType_defineOwnProperty_def getContent_def s1e_def
          monad_defs)
    have "lengthOf H a s1e = Some (NumberType lv)"
      using lengthOf_data [of s1e a d n0 H] k1 l1 len(2) c1
      by (simp add: s1e_def lookupProperty_def)
    moreover have "js_lt (Fin (of_nat i)) lv"
      using False len(5) by (simp add: js_ge_def)
    ultimately show ?thesis using whole False by simp
  next
    case True
    define nid where "nid = nextId s1"
    define s1n where "s1n = s1e\<lparr> heap := (heap s1e)(nid := (newCell ''Number'' (NumberType (Fin (of_nat i + 1))))
              \<lparr> closure := (case getCurrentContext s1e of None \<Rightarrow> NoClosure
                             | Some k \<Rightarrow> ContextClosure k) \<rparr>),
         nextId := Suc nid \<rparr>"
    have nn: "newNumberType (js_add_one (parseInt10 ?p)) s1e = (Normal nid, s1n)"
      using pi js_add_one_nat [OF i]
      by (simp add: newNumberType_def construct_def s1n_def nid_def s1e_def)
    have na: "nid \<noteq> a" using x1(4) by (simp add: nid_def)
    obtain e where fe: "findEntry ''length'' (properties (heap s1 a)) = Some e"
      using l1 by (auto simp: lookupProperty_def)
    have fe': "findEntry ''length'' (properties (heap s1n a)) = Some e"
      using fe na by (simp add: s1n_def s1e_def)
    have xn: "contextStack s1n \<noteq> []" "\<not> isSkippedMode s1n" "closure (heap s1n a) \<noteq> NoClosure"
      using x1 na by (simp_all add: s1n_def s1e_def isSkippedMode_def currentEnvRec_def)
    define s2 where "s2 = s1n\<lparr> heap := (heap s1n)(a := (heap s1n a)
              \<lparr> properties := updateEntry ''length''
                   (\<lambda>e. e\<lparr> evalue := Descriptor (lengthDescriptor nid) \<rparr>) (properties (heap s1n a)) \<rparr>) \<rparr>"
    have ap: "addProperty a ''length'' (lengthDescriptor nid) s1n = (Normal (), s2)"
      using addProperty_existing [OF fe' xn] by (simp add: s2_def)
    have whole: "defineOwnProperty H (Suc k) a ?p (plainDescriptor v) throwFlag suppressEvent s
                   = (Normal None, s2)"
      using a(2) b1 g1 c1 pi dg True nn ap
      by (simp add: defineOwnProperty_def ArrayType_defineOwnProperty_def getContent_def s1e_def
          monad_defs)
    have l2: "lookupProperty s2 a ''length'' = Some (Descriptor (lengthDescriptor nid))"
      using findEntry_updateEntry_same [OF fe', of "\<lambda>e. e\<lparr> evalue := Descriptor (lengthDescriptor nid) \<rparr>"]
      by (simp add: s2_def lookupProperty_def)
    have k2: "type_of (content (heap s2 a)) \<noteq> ''Unknown''"
      using k1 na by (simp add: s2_def s1n_def s1e_def)
    have c2: "content (heap s2 nid) = NumberType (Fin (of_nat i + 1))"
      using na by (simp add: s2_def s1n_def newCell_def)
    have "lengthOf H a s2 = Some (NumberType (Fin (of_nat i + 1)))"
      using lengthOf_data [OF k2 l2, of nid H] c2 by (simp add: lengthDescriptor_def)
    moreover have "js_lt (Fin (of_nat i)) (Fin (of_nat i + 1))" by simp
    ultimately show ?thesis using whole True by simp
  qed
qed

theorem ArrayType_defineOwnProperty_length_witness:
  "fst (ObjectType_defineOwnProperty 0 (decimalString 0) (plainDescriptor 2) False False arrayState)
       = Normal True
   \<and> lengthOf noHost 0 arrayState = Some (NumberType (Fin 0))
   \<and> lengthOf noHost 0
        (snd (defineOwnProperty noHost 1 0 (decimalString 0) (plainDescriptor 2) False False arrayState))
       = Some (NumberType (Fin 1))"
  using ArrayType_defineOwnProperty_length [of 0 arrayState
      "noKeys\<lparr> dvalue := Def 1, dwritable := Def True, denumerable := Def False, dconfigurable := Def False \<rparr>"
      1 "Fin 0" 0 2 False False noHost 0]
  by (simp add: eval_defs decimalString_zero isSkippedMode_def)

section \<open>putValue on an unresolvable reference\<close>














end
